theory Spec2Isabelle
  imports Complex_Main
begin

section \<open>Python strings\<close>

text \<open>
  A \<^typ>\<open>string\<close> is a list of characters; a \<^typ>\<open>char\<close> stands for the code point
  \<open>of_char c\<close>, which lies below 256.  On this range Python's \<open>str.isspace\<close> holds for
  the code points 9 to 13, 28 to 32, 133 and 160, and \<open>str.lower\<close> moves the capital
  letters 65 to 90, 192 to 214 and 216 to 222 up by 32 and leaves every other code point
  alone.  All literals of \<open>app.py\<close> that reach these functions are ASCII.
\<close>

definition is_space :: "char \<Rightarrow> bool" where
  "is_space c =
     (let n = (of_char c :: nat)
      in (9 \<le> n \<and> n \<le> 13) \<or> (28 \<le> n \<and> n \<le> 32) \<or> n = 133 \<or> n = 160)"

definition lower_char :: "char \<Rightarrow> char" where
  "lower_char c =
     (let n = (of_char c :: nat)
      in if (65 \<le> n \<and> n \<le> 90) \<or> (192 \<le> n \<and> n \<le> 214) \<or> (216 \<le> n \<and> n \<le> 222)
         then char_of (n + 32) else c)"

definition lower :: "string \<Rightarrow> string" where
  "lower s = map lower_char s"

text \<open>
  \<open>s.split()\<close> with no argument: the maximal runs of non-whitespace characters, in
  order.  \<open>split_from tok cs\<close> scans \<open>cs\<close> with the token read so far in \<open>tok\<close>.
\<close>

fun split_from :: "string \<Rightarrow> string \<Rightarrow> string list" where
  "split_from tok [] = (if tok = [] then [] else [tok])"
| "split_from tok (c # cs) =
     (if is_space c
      then (if tok = [] then split_from [] cs else tok # split_from [] cs)
      else split_from (tok @ [c]) cs)"

definition split :: "string \<Rightarrow> string list" where
  "split s = split_from [] s"

text \<open>
  \<open>s.strip()\<close>: leading and trailing whitespace removed.  This is the trimming that
  the specification of profile creation speaks of; \<open>app.py\<close> never calls it.
\<close>

definition strip :: "string \<Rightarrow> string" where
  "strip s = rev (dropWhile is_space (rev (dropWhile is_space s)))"

datatype py_error =
    IndexError | KeyError | TypeError | ValueError | AttributeError | OverflowError
  | RequestException | JSONDecodeError

text \<open>\<open>xs[0]\<close> on a list raises \<open>IndexError\<close> when the list is empty.\<close>

definition first :: "'a list \<Rightarrow> py_error + 'a" where
  "first xs = (case xs of [] \<Rightarrow> Inl IndexError | x # _ \<Rightarrow> Inr x)"

section \<open>Session state\<close>

datatype page =
    Welcome | Profile_Setup | Dashboard | Crop_Planner | Soil_Optimizer | Pest_Identifier
  | Weather_Alerts | Cost_Tips | Chat | History | Settings

record profile =
  full_name :: string
  location :: string
  farm_size :: string
  primary_crops :: string
  experience_level :: string
  created_at :: string

text \<open>What the user interface reports when a handler does not run to its end.\<close>

datatype failure =
    ValidationError
  | ConfigurationError
  | ServiceError string
  | NoResponse
  | Uncaught py_error

section \<open>Profile creation (\<open>profile_setup_page\<close>)\<close>

definition farm_size_options :: "string list" where
  "farm_size_options =
     [''Small (< 5 acres)'', ''Medium (5-50 acres)'', ''Large (50-200 acres)'',
      ''Very Large (200+ acres)'']"

definition experience_options :: "string list" where
  "experience_options =
     [''Beginner (0-2 years)'', ''Intermediate (3-10 years)'', ''Experienced (10+ years)'']"

text \<open>\<open>label.split()[0].lower()\<close>\<close>

definition category :: "string \<Rightarrow> py_error + string" where
  "category label = (case first (split label) of Inl e \<Rightarrow> Inl e | Inr tok \<Rightarrow> Inr (lower tok))"

text \<open>
  The body of \<open>if submitted:\<close>.  \<open>now\<close> is the value of \<open>datetime.now().isoformat()\<close>.
  A Python string is truthy when it is not empty.
\<close>

definition create_profile ::
  "string \<Rightarrow> string \<Rightarrow> string \<Rightarrow> string \<Rightarrow> string \<Rightarrow> string \<Rightarrow> failure + profile" where
  "create_profile now name loc size_label crops experience =
     (if name \<noteq> [] \<and> loc \<noteq> []
      then (case category size_label of
              Inl e \<Rightarrow> Inl (Uncaught e)
            | Inr fs \<Rightarrow>
               (case category experience of
                  Inl e \<Rightarrow> Inl (Uncaught e)
                | Inr el \<Rightarrow>
                    Inr \<lparr>full_name = name, location = loc, farm_size = fs,
                         primary_crops = crops, experience_level = el, created_at = now\<rparr>))
      else Inl ValidationError)"

section \<open>Errors as values\<close>

definition and_then :: "'e + 'a \<Rightarrow> ('a \<Rightarrow> 'e + 'b) \<Rightarrow> 'e + 'b" where
  "and_then r f = (case r of Inl e \<Rightarrow> Inl e | Inr x \<Rightarrow> f x)"

section \<open>JSON values as Python objects\<close>

text \<open>
  What \<open>response.json()\<close> can return.  \<open>JFloat q\<close> is a finite float of value \<open>q\<close>;
  \<open>JNaN\<close> and \<open>JInfinity\<close> (of either sign) are the non-finite floats that
  Python's decoder accepts.
  \<open>JObject kvs\<close> is the dict whose items are \<open>kvs\<close>, each key once.
\<close>

datatype json =
    JNull | JBool bool | JInt int | JFloat rat | JNaN | JInfinity
  | JString string | JArray "json list" | JObject "(string \<times> json) list"

text \<open>Truth value of an object, as \<open>not geo_data\<close> tests it.\<close>

fun truthy :: "json \<Rightarrow> bool" where
  "truthy JNull = False"
| "truthy (JBool b) = b"
| "truthy (JInt n) = (n \<noteq> 0)"
| "truthy (JFloat q) = (q \<noteq> 0)"
| "truthy JNaN = True"
| "truthy JInfinity = True"
| "truthy (JString s) = (s \<noteq> [])"
| "truthy (JArray xs) = (xs \<noteq> [])"
| "truthy (JObject kvs) = (kvs \<noteq> [])"

text \<open>\<open>x[0]\<close>\<close>

fun item0 :: "json \<Rightarrow> py_error + json" where
  "item0 (JArray xs) = first xs"
| "item0 (JString s) = (case s of [] \<Rightarrow> Inl IndexError | c # _ \<Rightarrow> Inr (JString [c]))"
| "item0 (JObject kvs) = Inl KeyError"
| "item0 _ = Inl TypeError"

text \<open>\<open>x['k']\<close>\<close>

fun item :: "json \<Rightarrow> string \<Rightarrow> py_error + json" where
  "item (JObject kvs) k = (case map_of kvs k of None \<Rightarrow> Inl KeyError | Some v \<Rightarrow> Inr v)"
| "item _ k = Inl TypeError"

text \<open>\<open>round(x)\<close> with one argument: the nearest integer, a tie going to the even one.\<close>

definition round_half_even :: "rat \<Rightarrow> int" where
  "round_half_even q =
     (let f = \<lfloor>q\<rfloor>; d = q - of_int f
      in if d < 1 / 2 then f else if 1 / 2 < d then f + 1 else if even f then f else f + 1)"

fun py_round :: "json \<Rightarrow> py_error + int" where
  "py_round (JInt n) = Inr n"
| "py_round (JBool b) = Inr (if b then 1 else 0)"
| "py_round (JFloat q) = Inr (round_half_even q)"
| "py_round JNaN = Inl ValueError"
| "py_round JInfinity = Inl OverflowError"
| "py_round _ = Inl TypeError"

section \<open>The outside world\<close>

datatype role = System | User | Assistant

text \<open>
  A request as \<open>call_openai\<close> passes it to the client; \<open>temperature\<close> holds the
  decimal written in the source.
\<close>

record request =
  model :: string
  messages :: "(role \<times> string) list"
  temperature :: rat
  max_tokens :: nat

text \<open>
  \<open>client\<close>: whether the module-level \<open>client\<close> is set.
  \<open>openai req\<close>: what \<open>client.chat.completions.create\<close> does with \<open>req\<close>: it raises an
  exception \<open>e\<close> (\<open>Inl (str(e))\<close>) or returns a response, given by the
  \<open>message.content\<close> of each of its choices, in order.
  \<open>geocode loc\<close> and \<open>weather_api lat lon\<close>: what \<open>requests.get(url).json()\<close> gives
  for the two URLs: an exception or the decoded body.
  \<open>now\<close>: \<open>datetime.now().isoformat()\<close>.
\<close>

record env =
  client :: bool
  openai :: "request \<Rightarrow> string + string option list"
  geocode :: "string \<Rightarrow> py_error + json"
  weather_api :: "json \<Rightarrow> json \<Rightarrow> py_error + json"
  now :: string

datatype ext_call = Completion request | Geocode string | Weather_Call json json

section \<open>\<open>call_openai\<close>\<close>

definition system_prompt :: string where
  "system_prompt = ''You are a helpful and knowledgeable farming assistant. Provide practical, actionable advice for farmers. Be specific, detailed, and consider the farmer's unique situation.''"

definition build_request :: "string \<Rightarrow> request" where
  "build_request prompt =
     \<lparr>model = ''gpt-4o-mini'',
      messages = [(System, system_prompt), (User, prompt)],
      temperature = 7 / 10,
      max_tokens = 2048\<rparr>"

text \<open>
  The result is paired with the requests sent.  \<open>Inl\<close> is \<open>st.stop()\<close> after the error
  has been shown; an empty list of choices makes \<open>choices[0]\<close> raise inside the
  \<open>try\<close>, with the message of Python's \<open>IndexError\<close>.
\<close>

definition call_openai :: "env \<Rightarrow> string \<Rightarrow> (failure + string option) \<times> ext_call list" where
  "call_openai e prompt =
     (if \<not> client e then (Inl ConfigurationError, [])
      else
        (case openai e (build_request prompt) of
           Inl msg \<Rightarrow> Inl (ServiceError msg)
         | Inr choices \<Rightarrow>
             (case choices of
                [] \<Rightarrow> Inl (ServiceError ''list index out of range'')
              | c # _ \<Rightarrow> Inr c),
         [Completion (build_request prompt)]))"

section \<open>\<open>fetch_weather\<close>\<close>

record weather =
  temp :: int
  humidity :: json
  description :: json
  icon :: json

text \<open>Lines 146 to 153: \<open>None\<close> is the early \<open>return None\<close>.\<close>

definition coordinates :: "env \<Rightarrow> string \<Rightarrow> py_error + (json \<times> json) option" where
  "coordinates e loc =
     and_then (geocode e loc) (\<lambda>geo_data.
       if \<not> truthy geo_data then Inr None
       else
         and_then (item0 geo_data) (\<lambda>g.
         and_then (item g ''lat'') (\<lambda>lat.
         and_then (item0 geo_data) (\<lambda>g'.
         and_then (item g' ''lon'') (\<lambda>lon. Inr (Some (lat, lon)))))))"

text \<open>Lines 160 to 165: the returned dict, its values evaluated in order.\<close>

definition snapshot :: "json \<Rightarrow> py_error + weather" where
  "snapshot w =
     and_then (item w ''main'') (\<lambda>m.
     and_then (item m ''temp'') (\<lambda>t.
     and_then (py_round t) (\<lambda>rt.
     and_then (item w ''main'') (\<lambda>m'.
     and_then (item m' ''humidity'') (\<lambda>h.
     and_then (item w ''weather'') (\<lambda>ws.
     and_then (item0 ws) (\<lambda>w0.
     and_then (item w0 ''description'') (\<lambda>d.
     and_then (item w ''weather'') (\<lambda>ws'.
     and_then (item0 ws') (\<lambda>w0'.
     and_then (item w0' ''icon'') (\<lambda>i.
       Inr \<lparr>temp = rt, humidity = h, description = d, icon = i\<rparr>)))))))))))"

text \<open>The body of the \<open>try\<close>, with the external calls made.\<close>

definition fetch_weather_try :: "env \<Rightarrow> string \<Rightarrow> (py_error + weather option) \<times> ext_call list" where
  "fetch_weather_try e loc =
     (case coordinates e loc of
        Inl err \<Rightarrow> (Inl err, [Geocode loc])
      | Inr None \<Rightarrow> (Inr None, [Geocode loc])
      | Inr (Some (lat, lon)) \<Rightarrow>
          (and_then (weather_api e lat lon) (\<lambda>w. and_then (snapshot w) (\<lambda>r. Inr (Some r))),
           [Geocode loc, Weather_Call lat lon]))"

text \<open>\<open>except: return None\<close>\<close>

definition fetch_weather :: "env \<Rightarrow> string \<Rightarrow> weather option \<times> ext_call list" where
  "fetch_weather e loc =
     (case fetch_weather_try e loc of
        (Inl err, calls) \<Rightarrow> (None, calls)
      | (Inr r, calls) \<Rightarrow> (r, calls))"

section \<open>Session state and prompts\<close>

record recommendation =
  rec_type :: string
  title :: string
  response :: string
  rec_created_at :: string

record chat_message =
  role :: role
  content :: string

record session =
  profile :: "profile option"
  recommendations :: "recommendation list"
  chat_history :: "chat_message list"
  weather_data :: "weather option"
  current_page :: page

text \<open>Lines 105 to 114.\<close>

definition initial :: session where
  "initial =
     \<lparr>profile = None, recommendations = [], chat_history = [], weather_data = None,
      current_page = Welcome\<rparr>"

text \<open>\<open>sep.join(xs)\<close>\<close>

fun join :: "string \<Rightarrow> string list \<Rightarrow> string" where
  "join sep [] = []"
| "join sep [x] = x"
| "join sep (x # y # ys) = x @ sep @ join sep (y # ys)"

text \<open>
  The prompts.  Every profile the program stores has all six keys, so each
  \<open>profile.get(key, default)\<close> is the stored value.
\<close>

definition crop_prompt :: "profile \<Rightarrow> string \<Rightarrow> string \<Rightarrow> string \<Rightarrow> string" where
  "crop_prompt p month conditions soil =
     ''As an expert agricultural advisor, recommend the best crops for a farmer with the following conditions:\<newline>'' @
     ''                \<newline>Location: '' @ location p @ ''\<newline>Planting Month: '' @
     month @ ''\<newline>Weather Conditions: '' @ conditions @ ''\<newline>Soil Type: '' @
     soil @ ''\<newline>Farm Size: '' @ farm_size p @ ''\<newline>Current Crops: '' @
     primary_crops p @ ''\<newline>Experience: '' @ experience_level p @
     ''\<newline>\<newline>Provide 3-5 specific crop recommendations with:\<newline>'' @
     ''1. Crop name and variety\<newline>'' @
     ''2. Why it's suitable for these conditions\<newline>'' @
     ''3. Expected yield timeline\<newline>4. Key care tips\<newline>'' @
     ''5. Potential challenges to watch for\<newline>\<newline>'' @
     ''Be practical and specific to the farmer's situation.''"

text \<open>\<open>ph\<close> is the text that the f-string gives for the number entered.\<close>

definition soil_prompt :: "profile \<Rightarrow> string \<Rightarrow> string \<Rightarrow> string list \<Rightarrow> string" where
  "soil_prompt p ph soil_type problems =
     ''As a soil science expert, provide detailed recommendations for improving this farmer's soil:\<newline>'' @
     ''\<newline>Farmer Profile:\<newline>- Location: '' @ location p @
     ''\<newline>- Crops: '' @ primary_crops p @ ''\<newline>- Farm Size: '' @ farm_size p @
     ''\<newline>\<newline>Soil Analysis:\<newline>- pH Level: '' @ ph @
     ''\<newline>- Soil Type: '' @ soil_type @ ''\<newline>- Problems: '' @
     (if problems \<noteq> [] then join '', '' problems else ''None specified'') @
     ''\<newline>\<newline>Please provide:\<newline>'' @
     ''1. Overall soil health assessment\<newline>'' @
     ''2. Specific amendments needed\<newline>'' @
     ''3. Organic matter recommendations\<newline>4. Cover crop suggestions\<newline>'' @
     ''5. Long-term soil improvement plan\<newline>'' @
     ''6. Cost-effective solutions suitable for their farm size\<newline>\<newline>'' @
     ''Be practical and actionable.''"

definition pest_prompt :: "profile \<Rightarrow> string \<Rightarrow> string \<Rightarrow> string" where
  "pest_prompt p crop symptoms =
     ''As an agricultural pest control expert, identify the pest and provide treatment recommendations:\<newline>'' @
     ''\<newline>Farmer Details:\<newline>- Location: '' @ location p @
     ''\<newline>- Farm Size: '' @ farm_size p @
     ''\<newline>\<newline>Problem Description:\<newline>- Affected Crop: '' @ crop @
     ''\<newline>- Symptoms: '' @ symptoms @
     ''\<newline>\<newline>Please provide:\<newline>'' @
     ''1. Most likely pest identification (with confidence level)\<newline>'' @
     ''2. Alternative possibilities to consider\<newline>'' @
     ''3. Immediate control measures\<newline>'' @
     ''4. Long-term prevention strategies\<newline>'' @
     ''5. Organic/natural treatment options\<newline>'' @
     ''6. Chemical treatments (as last resort) with safety guidelines\<newline>'' @
     ''7. When to seek professional help\<newline>\<newline>Be specific and practical.''"

definition profile_context :: "profile \<Rightarrow> string" where
  "profile_context p =
     ''\<newline>Farmer Profile:\<newline>- Name: '' @ full_name p @
     ''\<newline>- Location: '' @ location p @ ''\<newline>- Farm Size: '' @ farm_size p @
     ''\<newline>- Crops: '' @ primary_crops p @ ''\<newline>- Experience: '' @
     experience_level p @ ''\<newline>''"

definition full_prompt :: "profile \<Rightarrow> string \<Rightarrow> string" where
  "full_prompt p user_input =
     ''You are a friendly and knowledgeable AI farming assistant.\<newline>\<newline>'' @
     profile_context p @ ''\<newline>\<newline>Farmer's Question: '' @ user_input @
     ''\<newline>\<newline>'' @
     ''Provide a helpful, conversational response. Be friendly but informative. Keep responses focused and practical. Use the farmer's profile information to give personalized advice.''"

section \<open>Script runs\<close>

text \<open>
  Streamlit runs the script once for each user action.  A run ends normally
  (\<open>outcome = None\<close>; \<open>st.rerun()\<close> ends it too), or with a failure shown to the user.
  In each case the session state written so far is kept.  \<open>calls\<close> are the external
  requests the run has sent, in order.
\<close>

record run =
  outcome :: "failure option"
  calls :: "ext_call list"
  after :: session

definition finished :: "session \<Rightarrow> run" where
  "finished s = \<lparr>outcome = None, calls = [], after = s\<rparr>"

definition failed :: "failure \<Rightarrow> session \<Rightarrow> run" where
  "failed f s = \<lparr>outcome = Some f, calls = [], after = s\<rparr>"

text \<open>
  One user action: a widget of the page on screen is activated, or the script is just
  run again (\<open>Rerun\<close>).  The arguments are the values of the form's fields.
\<close>

datatype action =
    Rerun
  | Sidebar_Dashboard | Sidebar_History | Sidebar_Chat | Sidebar_Settings
  | Get_Started
  | Create_Profile string string string string string
  | Tool_Crop_Planner | Tool_Pest_Identifier | Tool_Soil_Optimizer
  | Tool_Cost_Tips | Tool_Weather_Alerts | Tool_Chat
  | Get_Recommendations string string string
  | Analyze_Soil string string "string list"
  | Identify_Pest string string
  | Get_Weather_Advice
  | Get_Tips
  | Chat_Input string
  | Delete nat
  | Save_Profile string string string
  | Clear_Chat_History | Clear_Recommendations | Sign_Out

subsection \<open>\<open>welcome_page\<close>\<close>

fun welcome_page :: "action \<Rightarrow> session \<Rightarrow> run option" where
  "welcome_page Rerun s = Some (finished s)"
| "welcome_page Get_Started s =
     Some (finished (s\<lparr>current_page := (if profile s = None then Profile_Setup else Dashboard)\<rparr>))"
| "welcome_page _ s = None"

subsection \<open>\<open>profile_setup_page\<close>\<close>

text \<open>A select box returns one of its options.\<close>

fun profile_setup_page :: "env \<Rightarrow> action \<Rightarrow> session \<Rightarrow> run option" where
  "profile_setup_page e Rerun s = Some (finished s)"
| "profile_setup_page e (Create_Profile name loc size_label crops experience) s =
     (if size_label \<in> set farm_size_options \<and> experience \<in> set experience_options
      then
        (case create_profile (now e) name loc size_label crops experience of
           Inl f \<Rightarrow> Some (failed f s)
         | Inr p \<Rightarrow> Some (finished (s\<lparr>profile := Some p, current_page := Dashboard\<rparr>)))
      else None)"
| "profile_setup_page e _ s = None"

subsection \<open>\<open>dashboard_page\<close>\<close>

text \<open>Lines 231 to 236: the weather for a location, through the session's cache.\<close>

definition get_weather :: "env \<Rightarrow> string \<Rightarrow> session \<Rightarrow> weather option \<times> ext_call list \<times> session" where
  "get_weather e loc s =
     (case weather_data s of
        None \<Rightarrow>
          (case fetch_weather e loc of
             (Some w, cs) \<Rightarrow> (Some w, cs, s\<lparr>weather_data := Some w\<rparr>)
           | (None, cs) \<Rightarrow> (None, cs, s))
      | Some w \<Rightarrow> (Some w, [], s))"

text \<open>Lines 229 to 236: the local \<open>weather_data\<close>, the calls made, the session.\<close>

definition dashboard_weather :: "env \<Rightarrow> session \<Rightarrow> weather option \<times> ext_call list \<times> session" where
  "dashboard_weather e s =
     (case profile s of
        None \<Rightarrow> (None, [], s)
      | Some p \<Rightarrow> if location p \<noteq> [] then get_weather e (location p) s else (None, [], s))"

text \<open>
  The page down to its buttons: the greeting takes the first word of the name, the
  metrics read the profile, and the caption calls \<open>.title()\<close> on the description,
  which only a string has.
\<close>

definition dashboard_top :: "env \<Rightarrow> session \<Rightarrow> run" where
  "dashboard_top e s =
     (case (case profile s of
              None \<Rightarrow> Inr ''Farmer''
            | Some p \<Rightarrow> first (split (full_name p))) of
        Inl err \<Rightarrow> failed (Uncaught err) s
      | Inr name \<Rightarrow>
          (case dashboard_weather e s of
             (w, cs, s') \<Rightarrow>
               (case profile s of
                  None \<Rightarrow> \<lparr>outcome = Some (Uncaught AttributeError), calls = cs, after = s'\<rparr>
                | Some p \<Rightarrow>
                    (case w of
                       None \<Rightarrow> \<lparr>outcome = None, calls = cs, after = s'\<rparr>
                     | Some wd \<Rightarrow>
                         (case description wd of
                            JString d \<Rightarrow> \<lparr>outcome = None, calls = cs, after = s'\<rparr>
                          | _ \<Rightarrow> \<lparr>outcome = Some (Uncaught AttributeError), calls = cs,
                                  after = s'\<rparr>)))))"

fun tool_page :: "action \<Rightarrow> page option" where
  "tool_page Tool_Crop_Planner = Some Crop_Planner"
| "tool_page Tool_Pest_Identifier = Some Pest_Identifier"
| "tool_page Tool_Soil_Optimizer = Some Soil_Optimizer"
| "tool_page Tool_Cost_Tips = Some Cost_Tips"
| "tool_page Tool_Weather_Alerts = Some Weather_Alerts"
| "tool_page Tool_Chat = Some Chat"
| "tool_page _ = None"

definition dashboard_page :: "env \<Rightarrow> action \<Rightarrow> session \<Rightarrow> run option" where
  "dashboard_page e a s =
     (let r = dashboard_top e s
      in if a = Rerun then Some r
         else
           (case tool_page a of
              None \<Rightarrow> None
            | Some pg \<Rightarrow>
                (case outcome r of
                   Some f \<Rightarrow> None
                 | None \<Rightarrow> Some (r\<lparr>after := (after r)\<lparr>current_page := pg\<rparr>\<rparr>))))"

subsection \<open>The advisory pages\<close>

text \<open>
  What the three pages do with a prompt: \<open>call_openai\<close>, then \<open>if response:\<close> the
  record is appended.
\<close>

definition advise :: "env \<Rightarrow> string \<Rightarrow> string \<Rightarrow> string \<Rightarrow> session \<Rightarrow> run" where
  "advise e prompt kind heading s =
     (case call_openai e prompt of
        (Inl f, cs) \<Rightarrow> \<lparr>outcome = Some f, calls = cs, after = s\<rparr>
      | (Inr None, cs) \<Rightarrow> \<lparr>outcome = Some NoResponse, calls = cs, after = s\<rparr>
      | (Inr (Some r), cs) \<Rightarrow>
          (if r \<noteq> []
           then \<lparr>outcome = None, calls = cs,
                 after = s\<lparr>recommendations := recommendations s @
                   [\<lparr>rec_type = kind, title = heading, response = r,
                     rec_created_at = now e\<rparr>]\<rparr>\<rparr>
           else \<lparr>outcome = Some NoResponse, calls = cs, after = s\<rparr>))"

definition month_options :: "string list" where
  "month_options =
     [''January'', ''February'', ''March'', ''April'', ''May'', ''June'', ''July'', ''August'',
      ''September'', ''October'', ''November'', ''December'']"

definition weather_options :: "string list" where
  "weather_options = [''Hot & Dry'', ''Hot & Humid'', ''Mild/Temperate'', ''Cold'', ''Rainy/Monsoon'']"

definition soil_options :: "string list" where
  "soil_options = [''Clay'', ''Sandy'', ''Loamy'', ''Silty'', ''Peaty'']"

definition soil_type_options :: "string list" where
  "soil_type_options = [''Clay'', ''Sandy'', ''Loamy'', ''Silty'', ''Chalky'']"

definition problem_options :: "string list" where
  "problem_options = [''Poor Drainage'', ''Compaction'', ''Low Nutrients'', ''Erosion'']"

text \<open>
  \<open>st.session_state.profile.get\<close> raises \<open>AttributeError\<close> when the profile is
  \<open>None\<close>.
\<close>

fun crop_planner_page :: "env \<Rightarrow> action \<Rightarrow> session \<Rightarrow> run option" where
  "crop_planner_page e Rerun s = Some (finished s)"
| "crop_planner_page e (Get_Recommendations month conditions soil) s =
     (if month \<in> set month_options \<and> conditions \<in> set weather_options \<and> soil \<in> set soil_options
      then
        (case profile s of
           None \<Rightarrow> Some (failed (Uncaught AttributeError) s)
         | Some p \<Rightarrow>
             Some (advise e (crop_prompt p month conditions soil) ''crop_planner''
                     (''Crop Recommendations for '' @ month) s))
      else None)"
| "crop_planner_page e _ s = None"

fun soil_optimizer_page :: "env \<Rightarrow> action \<Rightarrow> session \<Rightarrow> run option" where
  "soil_optimizer_page e Rerun s = Some (finished s)"
| "soil_optimizer_page e (Analyze_Soil ph soil_type problems) s =
     (if soil_type \<in> set soil_type_options \<and> set problems \<subseteq> set problem_options
         \<and> distinct problems
      then
        (case profile s of
           None \<Rightarrow> Some (failed (Uncaught AttributeError) s)
         | Some p \<Rightarrow>
             Some (advise e (soil_prompt p ph soil_type problems) ''soil_optimizer''
                     ''Soil Health Analysis'' s))
      else None)"
| "soil_optimizer_page e _ s = None"

fun pest_identifier_page :: "env \<Rightarrow> action \<Rightarrow> session \<Rightarrow> run option" where
  "pest_identifier_page e Rerun s = Some (finished s)"
| "pest_identifier_page e (Identify_Pest crop symptoms) s =
     (if crop \<noteq> [] \<and> symptoms \<noteq> []
      then
        (case profile s of
           None \<Rightarrow> Some (failed (Uncaught AttributeError) s)
         | Some p \<Rightarrow>
             Some (advise e (pest_prompt p crop symptoms) ''pest_identifier''
                     (''Pest Identification for '' @ crop) s))
      else Some (failed ValidationError s))"
| "pest_identifier_page e _ s = None"

fun weather_alerts_page :: "action \<Rightarrow> session \<Rightarrow> run option" where
  "weather_alerts_page Rerun s = Some (finished s)"
| "weather_alerts_page Get_Weather_Advice s = Some (finished s)"
| "weather_alerts_page _ s = None"

fun cost_tips_page :: "action \<Rightarrow> session \<Rightarrow> run option" where
  "cost_tips_page Rerun s = Some (finished s)"
| "cost_tips_page Get_Tips s = Some (finished s)"
| "cost_tips_page _ s = None"

subsection \<open>\<open>chat_page\<close>\<close>

text \<open>
  Lines 534 to 563.  The user's message is appended first; the profile is read next;
  \<open>call_openai\<close> either stops the script or returns, and the assistant's message is
  appended \<open>if response:\<close>.
\<close>

definition chat_input :: "env \<Rightarrow> string \<Rightarrow> session \<Rightarrow> run" where
  "chat_input e user_input s =
     (let s1 = s\<lparr>chat_history := chat_history s @ [\<lparr>role = User, content = user_input\<rparr>]\<rparr>
      in case profile s1 of
           None \<Rightarrow> failed (Uncaught AttributeError) s1
         | Some p \<Rightarrow>
             (case call_openai e (full_prompt p user_input) of
                (Inl f, cs) \<Rightarrow> \<lparr>outcome = Some f, calls = cs, after = s1\<rparr>
              | (Inr None, cs) \<Rightarrow> \<lparr>outcome = Some NoResponse, calls = cs, after = s1\<rparr>
              | (Inr (Some r), cs) \<Rightarrow>
                  (if r \<noteq> []
                   then \<lparr>outcome = None, calls = cs,
                         after = s1\<lparr>chat_history := chat_history s1 @
                           [\<lparr>role = Assistant, content = r\<rparr>]\<rparr>\<rparr>
                   else \<lparr>outcome = Some NoResponse, calls = cs, after = s1\<rparr>)))"

fun chat_page :: "env \<Rightarrow> action \<Rightarrow> session \<Rightarrow> run option" where
  "chat_page e Rerun s = Some (finished s)"
| "chat_page e (Chat_Input user_input) s =
     (if user_input \<noteq> [] then Some (chat_input e user_input s) else Some (finished s))"
| "chat_page e _ s = None"

subsection \<open>\<open>history_page\<close>\<close>

text \<open>\<open>xs.remove(x)\<close>: the first item equal to \<open>x\<close> goes; \<open>ValueError\<close> when there is none.\<close>

fun list_remove :: "'a list \<Rightarrow> 'a \<Rightarrow> py_error + 'a list" where
  "list_remove [] x = Inl ValueError"
| "list_remove (y # ys) x =
     (if y = x then Inr ys
      else (case list_remove ys x of Inl err \<Rightarrow> Inl err | Inr zs \<Rightarrow> Inr (y # zs)))"

text \<open>
  The button \<open>del_i\<close> belongs to the \<open>i\<close>-th record of \<open>reversed(recommendations)\<close>;
  there is one for each record.
\<close>

definition delete_recommendation :: "nat \<Rightarrow> session \<Rightarrow> run" where
  "delete_recommendation i s =
     (case list_remove (recommendations s) (rev (recommendations s) ! i) of
        Inl err \<Rightarrow> failed (Uncaught err) s
      | Inr recs \<Rightarrow> finished (s\<lparr>recommendations := recs\<rparr>))"

fun history_page :: "action \<Rightarrow> session \<Rightarrow> run option" where
  "history_page Rerun s = Some (finished s)"
| "history_page (Delete i) s =
     (if i < length (recommendations s) then Some (delete_recommendation i s) else None)"
| "history_page _ s = None"

subsection \<open>\<open>settings_page\<close>\<close>

definition sign_out :: "session \<Rightarrow> session" where
  "sign_out s = s\<lparr>profile := None, current_page := Welcome\<rparr>"

fun settings_page :: "action \<Rightarrow> session \<Rightarrow> run option" where
  "settings_page Rerun s = Some (finished s)"
| "settings_page (Save_Profile name loc crops) s =
     (case profile s of
        None \<Rightarrow> None
      | Some p \<Rightarrow>
          Some (finished (s\<lparr>profile :=
                  Some (p\<lparr>full_name := name, location := loc, primary_crops := crops\<rparr>)\<rparr>)))"
| "settings_page Clear_Chat_History s = Some (finished (s\<lparr>chat_history := []\<rparr>))"
| "settings_page Clear_Recommendations s = Some (finished (s\<lparr>recommendations := []\<rparr>))"
| "settings_page Sign_Out s = Some (finished (sign_out s))"
| "settings_page _ s = None"

subsection \<open>\<open>main\<close>\<close>

fun sidebar_page :: "action \<Rightarrow> page option" where
  "sidebar_page Sidebar_Dashboard = Some Dashboard"
| "sidebar_page Sidebar_History = Some History"
| "sidebar_page Sidebar_Chat = Some Chat"
| "sidebar_page Sidebar_Settings = Some Settings"
| "sidebar_page _ = None"

text \<open>
  The side bar comes first and shows its buttons only when there is a profile; then
  the page named by \<open>current_page\<close> runs.  \<open>None\<close>: the action's widget is not on
  screen.
\<close>

definition main :: "env \<Rightarrow> action \<Rightarrow> session \<Rightarrow> run option" where
  "main e a s =
     (case sidebar_page a of
        Some pg \<Rightarrow> if profile s \<noteq> None then Some (finished (s\<lparr>current_page := pg\<rparr>)) else None
      | None \<Rightarrow>
          (case current_page s of
             Welcome \<Rightarrow> welcome_page a s
           | Profile_Setup \<Rightarrow> profile_setup_page e a s
           | Dashboard \<Rightarrow> dashboard_page e a s
           | Crop_Planner \<Rightarrow> crop_planner_page e a s
           | Soil_Optimizer \<Rightarrow> soil_optimizer_page e a s
           | Pest_Identifier \<Rightarrow> pest_identifier_page e a s
           | Weather_Alerts \<Rightarrow> weather_alerts_page a s
           | Cost_Tips \<Rightarrow> cost_tips_page a s
           | Chat \<Rightarrow> chat_page e a s
           | History \<Rightarrow> history_page a s
           | Settings \<Rightarrow> settings_page a s))"

text \<open>The sessions that user actions can produce, whatever the outside world answers.\<close>

inductive reachable :: "session \<Rightarrow> bool" where
  start: "reachable initial"
| step: "reachable s \<Longrightarrow> main e a s = Some r \<Longrightarrow> reachable (after r)"

subsection \<open>Classifying runs and transcripts\<close>

text \<open>A run that has sent nothing but completion requests.\<close>

definition completions_only :: "ext_call list \<Rightarrow> bool" where
  "completions_only cs = (\<forall>c \<in> set cs. \<exists>rq. c = Completion rq)"

text \<open>
  A transcript made of blocks, each a user message alone or a user message followed by
  one assistant message with some text.
\<close>

fun paired :: "chat_message list \<Rightarrow> bool" where
  "paired [] = True"
| "paired [m] = (role m = User)"
| "paired (m # m' # ms) =
     (role m = User \<and>
      (if role m' = Assistant then content m' \<noteq> [] \<and> paired ms else paired (m' # ms)))"

text \<open>Without a profile only the welcome page and the profile form are on screen.\<close>

definition gate :: "session \<Rightarrow> bool" where
  "gate s = (profile s = None \<longrightarrow> current_page s = Welcome \<or> current_page s = Profile_Setup)"

section \<open>Sample data\<close>

definition sample_profile :: profile where
  "sample_profile =
     \<lparr>full_name = ''Asha Rao'', location = ''Austin'', farm_size = ''small'',
      primary_crops = ''Corn'', experience_level = ''beginner'',
      created_at = ''2024-06-01T09:00:00''\<rparr>"

definition sample_weather :: weather where
  "sample_weather =
     \<lparr>temp = 22, humidity = JInt 40, description = JString ''clear sky'', icon = JString ''01d''\<rparr>"

definition sample_session :: session where
  "sample_session =
     \<lparr>profile = Some sample_profile, recommendations = [], chat_history = [],
      weather_data = Some sample_weather, current_page = Settings\<rparr>"

definition sample_geo :: json where
  "sample_geo = JArray [JObject [(''lat'', JFloat (3027 / 100)), (''lon'', JFloat (- 9774 / 100))]]"

definition sample_conditions :: json where
  "sample_conditions =
     JObject [(''main'', JObject [(''temp'', JFloat (215 / 10)), (''humidity'', JInt 40)]),
              (''weather'', JArray [JObject [(''description'', JString ''clear sky''),
                                             (''icon'', JString ''01d'')]])]"

definition sample_env :: env where
  "sample_env =
     \<lparr>client = True,
      openai = (\<lambda>rq. Inr [Some ''Plant okra.'']),
      geocode = (\<lambda>loc. Inr sample_geo),
      weather_api = (\<lambda>lat lon. Inr sample_conditions),
      now = ''2024-06-01T09:00:00''\<rparr>"

definition empty_reply_env :: env where
  "empty_reply_env = sample_env\<lparr>openai := (\<lambda>rq. Inr [Some []])\<rparr>"


definition offline_env :: env where
  "offline_env = sample_env\<lparr>geocode := (\<lambda>loc. Inl RequestException)\<rparr>"

definition fresh_session :: session where
  "fresh_session = sample_session\<lparr>weather_data := None, current_page := Dashboard\<rparr>"



definition chat_session :: session where
  "chat_session =
     \<lparr>profile = Some sample_profile, recommendations = [],
      chat_history = [\<lparr>role = User, content = ''Hello''\<rparr>,
                      \<lparr>role = Assistant, content = ''Plant okra.''\<rparr>],
      weather_data = None, current_page = Chat\<rparr>"



section \<open>Properties\<close>

subsection \<open>Profile creation\<close>

lemma category_farm_size_options:
  "map category farm_size_options = [Inr ''small'', Inr ''medium'', Inr ''large'', Inr ''very'']"
  by code_simp

lemma category_experience_options:
  "map category experience_options = [Inr ''beginner'', Inr ''intermediate'', Inr ''experienced'']"
  by code_simp

lemma category_of_farm_size:
  assumes "l \<in> set farm_size_options"
  shows "category l \<in> {Inr ''small'', Inr ''medium'', Inr ''large'', Inr ''very''}"
proof -
  from assms have "category l \<in> set (map category farm_size_options)" by simp
  then show ?thesis unfolding category_farm_size_options by simp
qed

lemma category_of_experience:
  assumes "l \<in> set experience_options"
  shows "category l \<in> {Inr ''beginner'', Inr ''intermediate'', Inr ''experienced''}"
proof -
  from assms have "category l \<in> set (map category experience_options)" by simp
  then show ?thesis unfolding category_experience_options by simp
qed

lemma create_profile_Inr:
  assumes "size_label \<in> set farm_size_options" "experience \<in> set experience_options"
    "name \<noteq> []" "loc \<noteq> []"
  shows "\<exists>fs el. category size_label = Inr fs \<and> category experience = Inr el \<and>
          create_profile t name loc size_label crops experience =
          Inr \<lparr>full_name = name, location = loc, farm_size = fs,
                         primary_crops = crops, experience_level = el, created_at = t\<rparr>"
  using category_of_farm_size[OF assms(1)] category_of_experience[OF assms(2)] assms(3,4)
  by (auto simp: create_profile_def)

text \<open>
  Claim C1, as the code has it.  Submitting the profile form reports \<open>ValidationError\<close>
  exactly when the name or the location is the empty string; the inputs are tested as
  entered, nothing is trimmed.  In that case the session is unchanged.  When both are
  non-empty the run ends normally, the profile built by \<open>create_profile\<close> is stored with
  the inputs as entered and \<open>created_at\<close> set to the current time, and the page becomes the
  dashboard.  The two labels are options of their select boxes.
\<close>

theorem profile_creation_validation:
  assumes "size_label \<in> set farm_size_options" and "experience \<in> set experience_options"
  shows "\<exists>r. profile_setup_page e (Create_Profile name loc size_label crops experience) s = Some r
       \<and> calls r = []
       \<and> (outcome r = Some ValidationError \<longleftrightarrow> name = [] \<or> loc = [])
       \<and> (name = [] \<or> loc = [] \<longrightarrow> after r = s)
       \<and> (name \<noteq> [] \<and> loc \<noteq> [] \<longrightarrow>
            outcome r = None \<and> current_page (after r) = Dashboard \<and>
            (\<exists>p. create_profile (now e) name loc size_label crops experience = Inr p \<and>
                 after r = s\<lparr>profile := Some p, current_page := Dashboard\<rparr> \<and>
                 full_name p = name \<and> location p = loc \<and> primary_crops p = crops \<and>
                 category size_label = Inr (farm_size p) \<and>
                 category experience = Inr (experience_level p) \<and>
                 created_at p = now e))"
proof (cases "name \<noteq> [] \<and> loc \<noteq> []")
  case True
  then obtain fs el where *: "category size_label = Inr fs" "category experience = Inr el"
     "create_profile (now e) name loc size_label crops experience =
          Inr \<lparr>full_name = name, location = loc, farm_size = fs,
                         primary_crops = crops, experience_level = el, created_at = now e\<rparr>"
    using create_profile_Inr[OF assms, of name loc "now e" crops] by blast
  show ?thesis using True assms * by (simp add: finished_def)
next
  case False
  then have "create_profile (now e) name loc size_label crops experience = Inl ValidationError"
    by (auto simp: create_profile_def)
  then show ?thesis using False assms by (auto simp: failed_def)
qed

theorem profile_creation_validation_witness:
  "''Small (< 5 acres)'' \<in> set farm_size_options \<and>
   ''Beginner (0-2 years)'' \<in> set experience_options \<and>
   (\<exists>r. profile_setup_page sample_env
         (Create_Profile ''Asha Rao'' ''Austin'' ''Small (< 5 acres)'' ''Corn'' ''Beginner (0-2 years)'')
         initial = Some r
       \<and> outcome r = None
       \<and> (\<exists>p. profile (after r) = Some p \<and> full_name p = ''Asha Rao'' \<and>
               location p = ''Austin'' \<and> created_at p = now sample_env))"
proof -
  have a: "''Small (< 5 acres)'' \<in> set farm_size_options" by (simp add: farm_size_options_def)
  have b: "''Beginner (0-2 years)'' \<in> set experience_options" by (simp add: experience_options_def)
  have n: "''Asha Rao'' \<noteq> [] \<and> ''Austin'' \<noteq> []" by simp
  from profile_creation_validation [OF a b, of sample_env "''Asha Rao''" "''Austin''" "''Corn''" initial]
  obtain r where r: "profile_setup_page sample_env
         (Create_Profile ''Asha Rao'' ''Austin'' ''Small (< 5 acres)'' ''Corn'' ''Beginner (0-2 years)'')
         initial = Some r"
    and ok: "''Asha Rao'' \<noteq> [] \<and> ''Austin'' \<noteq> [] \<longrightarrow>
            outcome r = None \<and> current_page (after r) = Dashboard \<and>
            (\<exists>p. create_profile (now sample_env) ''Asha Rao'' ''Austin'' ''Small (< 5 acres)'' ''Corn'' ''Beginner (0-2 years)'' = Inr p \<and>
                 after r = initial\<lparr>profile := Some p, current_page := Dashboard\<rparr> \<and>
                 full_name p = ''Asha Rao'' \<and> location p = ''Austin'' \<and> primary_crops p = ''Corn'' \<and>
                 category ''Small (< 5 acres)'' = Inr (farm_size p) \<and>
                 category ''Beginner (0-2 years)'' = Inr (experience_level p) \<and>
                 created_at p = now sample_env)"
    by blast
  from ok n obtain p where "outcome r = None"
    and "after r = initial\<lparr>profile := Some p, current_page := Dashboard\<rparr>"
    and "full_name p = ''Asha Rao''" "location p = ''Austin''" "created_at p = now sample_env"
    by blast
  then have "outcome r = None \<and> (\<exists>p. profile (after r) = Some p \<and> full_name p = ''Asha Rao'' \<and>
               location p = ''Austin'' \<and> created_at p = now sample_env)"
    by simp
  with a b r show ?thesis by blast
qed

text \<open>
  Claim C1 as stated fails: a name of one blank is empty after trimming, and the profile
  is created all the same.
\<close>

theorem profile_creation_blank_name:
  "strip '' '' = [] \<and>
   create_profile ''2024-06-01T09:00:00'' '' '' ''Austin'' ''Small (< 5 acres)'' ''Corn''
     ''Beginner (0-2 years)''
   = Inr \<lparr>full_name = '' '', location = ''Austin'', farm_size = ''small'',
          primary_crops = ''Corn'', experience_level = ''beginner'',
          created_at = ''2024-06-01T09:00:00''\<rparr>"
  by code_simp

text \<open>
  Claim C2 as stated fails at the label \<open>Very Large (200+ acres)\<close>: its first word in
  lower case is \<open>very\<close>, which is not one of \<open>small\<close>, \<open>medium\<close>, \<open>large\<close>,
  \<open>very_large\<close>.
\<close>

theorem very_large_label_category:
  "''Very Large (200+ acres)'' \<in> set farm_size_options \<and>
   category ''Very Large (200+ acres)'' = Inr ''very'' \<and>
   ''very'' \<notin> {''small'', ''medium'', ''large'', ''very_large''}"
  by code_simp

text \<open>
  Claim C2, as the code has it.  For every farm-size label of the form the derived
  category is one of \<open>small\<close>, \<open>medium\<close>, \<open>large\<close>, \<open>very\<close>, and for every
  experience label it is one of \<open>beginner\<close>, \<open>intermediate\<close>, \<open>experienced\<close>; the
  derivation never raises on these labels.
\<close>

theorem category_of_offered_labels:
  "(\<forall>l \<in> set farm_size_options.
      \<exists>c \<in> {''small'', ''medium'', ''large'', ''very''}. category l = Inr c) \<and>
   (\<forall>l \<in> set experience_options.
      \<exists>c \<in> {''beginner'', ''intermediate'', ''experienced''}. category l = Inr c)"
proof (intro conjI ballI)
  fix l assume "l \<in> set farm_size_options"
  from category_of_farm_size [OF this]
  show "\<exists>c \<in> {''small'', ''medium'', ''large'', ''very''}. category l = Inr c" by auto
next
  fix l assume "l \<in> set experience_options"
  from category_of_experience [OF this]
  show "\<exists>c \<in> {''beginner'', ''intermediate'', ''experienced''}. category l = Inr c" by auto
qed

theorem category_of_offered_labels_witness:
  "''Medium (5-50 acres)'' \<in> set farm_size_options \<and>
   ''Experienced (10+ years)'' \<in> set experience_options \<and>
   (\<exists>c \<in> {''small'', ''medium'', ''large'', ''very''}. category ''Medium (5-50 acres)'' = Inr c) \<and>
   (\<exists>c \<in> {''beginner'', ''intermediate'', ''experienced''}.
      category ''Experienced (10+ years)'' = Inr c)"
proof -
  have a: "''Medium (5-50 acres)'' \<in> set farm_size_options" by (simp add: farm_size_options_def)
  have b: "''Experienced (10+ years)'' \<in> set experience_options" by (simp add: experience_options_def)
  from category_of_offered_labels a b show ?thesis by blast
qed

subsection \<open>Sign-out\<close>

text \<open>
  Claim C5.  In a session with a profile, sign-out leaves no profile and makes
  \<open>welcome\<close> the current page; the recommendations and the chat transcript are as
  before.  On the settings page the \<open>Sign Out\<close> button does exactly this.
\<close>

theorem sign_out_frame:
  assumes "profile s \<noteq> None"
  shows "profile (sign_out s) = None \<and> current_page (sign_out s) = Welcome \<and>
     recommendations (sign_out s) = recommendations s \<and>
     chat_history (sign_out s) = chat_history s \<and>
     (current_page s = Settings \<longrightarrow> main e Sign_Out s = Some (finished (sign_out s)))"
  by (simp add: sign_out_def main_def)

theorem sign_out_frame_witness:
  "profile sample_session \<noteq> None \<and> profile (sign_out sample_session) = None \<and>
   current_page (sign_out sample_session) = Welcome \<and>
   recommendations (sign_out sample_session) = recommendations sample_session \<and>
   chat_history (sign_out sample_session) = chat_history sample_session \<and>
   main sample_env Sign_Out sample_session = Some (finished (sign_out sample_session))"
proof -
  have a: "profile sample_session \<noteq> None" by (simp add: sample_session_def)
  have b: "current_page sample_session = Settings" by (simp add: sample_session_def)
  from sign_out_frame [OF a, of sample_env] a b show ?thesis by simp
qed

subsection \<open>The completion gateway\<close>

text \<open>
  Claim C8.  Every request that \<open>call_openai\<close> sends has temperature 0.7 and at most
  2048 output tokens, and its messages are the fixed system instruction followed by the
  prompt as the one user message; at most one request is sent.  When the service
  answers, the result is the content of the first choice, as received.
\<close>

theorem call_openai_contract:
  "(\<forall>rq. Completion rq \<in> set (snd (call_openai e prompt)) \<longrightarrow>
       temperature rq = 7 / 10 \<and> max_tokens rq = 2048 \<and>
       messages rq = [(System, system_prompt), (User, prompt)]) \<and>
   length (snd (call_openai e prompt)) \<le> 1 \<and>
   (client e \<longrightarrow> snd (call_openai e prompt) = [Completion (build_request prompt)]) \<and>
   (\<forall>c rest. client e \<and> openai e (build_request prompt) = Inr (c # rest) \<longrightarrow>
       fst (call_openai e prompt) = Inr c)"
  by (auto simp: call_openai_def build_request_def)

theorem call_openai_contract_witness:
  "client sample_env \<and>
   openai sample_env (build_request ''When do I sow okra?'') = Inr [Some ''Plant okra.''] \<and>
   call_openai sample_env ''When do I sow okra?'' =
     (Inr (Some ''Plant okra.''),
      [Completion \<lparr>model = ''gpt-4o-mini'',
                   messages = [(System, system_prompt), (User, ''When do I sow okra?'')],
                   temperature = 7 / 10, max_tokens = 2048\<rparr>])"
proof -
  have a: "client sample_env" by (simp add: sample_env_def)
  have b: "openai sample_env (build_request ''When do I sow okra?'') = Inr [Some ''Plant okra.'']"
    by (simp add: sample_env_def)
  from call_openai_contract [of sample_env "''When do I sow okra?''"] a b
  have "fst (call_openai sample_env ''When do I sow okra?'') = Inr (Some ''Plant okra.'')"
    and "snd (call_openai sample_env ''When do I sow okra?'') = [Completion (build_request ''When do I sow okra?'')]"
    by blast+
  then show ?thesis using a b by (simp add: prod_eq_iff build_request_def)
qed

subsection \<open>Fetching the weather\<close>











subsection \<open>The cached snapshot\<close>

lemma call_openai_calls:
  "c \<in> set (snd (call_openai e prompt)) \<Longrightarrow> \<exists>rq. c = Completion rq"
  by (auto simp: call_openai_def split: if_splits)

lemma get_weather_cached: "weather_data s = Some w \<Longrightarrow> get_weather e loc s = (Some w, [], s)"
  by (simp add: get_weather_def)

lemma get_weather_result:
  "get_weather e loc s = (r, cs, s') \<Longrightarrow> weather_data s' = (case r of None \<Rightarrow> weather_data s | Some w \<Rightarrow> Some w)"
  by (auto simp: get_weather_def split: option.splits prod.splits)

lemma dashboard_weather_cached:
  "weather_data s = Some w \<Longrightarrow> snd (dashboard_weather e s) = ([], s)"
  by (simp add: dashboard_weather_def get_weather_cached split: option.splits)

lemma dashboard_top_cached:
  "weather_data s = Some w \<Longrightarrow> calls (dashboard_top e s) = [] \<and> after (dashboard_top e s) = s"
  using dashboard_weather_cached [of s w e]
  by (cases "dashboard_weather e s")
     (auto simp: dashboard_top_def failed_def split: option.splits sum.splits json.splits)

lemma advise_effect:
  "weather_data (after (advise e prompt kind heading s)) = weather_data s \<and>
   profile (after (advise e prompt kind heading s)) = profile s \<and>
   current_page (after (advise e prompt kind heading s)) = current_page s \<and>
   chat_history (after (advise e prompt kind heading s)) = chat_history s \<and>
   calls (advise e prompt kind heading s) = snd (call_openai e prompt)"
  by (cases "call_openai e prompt") (auto simp: advise_def split: sum.splits option.splits)

lemma chat_input_effect:
  "weather_data (after (chat_input e u s)) = weather_data s \<and>
   profile (after (chat_input e u s)) = profile s \<and>
   current_page (after (chat_input e u s)) = current_page s \<and>
   recommendations (after (chat_input e u s)) = recommendations s \<and>
   (\<forall>c \<in> set (calls (chat_input e u s)). \<exists>rq. c = Completion rq)"
proof (cases "profile s")
  case None
  then show ?thesis by (simp add: chat_input_def failed_def)
next
  case (Some p)
  then show ?thesis
    using call_openai_calls [of _ e "full_prompt p u"]
    by (cases "call_openai e (full_prompt p u)")
       (auto simp: chat_input_def Let_def split: sum.splits option.splits)
qed

lemma delete_recommendation_effect:
  "weather_data (after (delete_recommendation i s)) = weather_data s \<and>
   profile (after (delete_recommendation i s)) = profile s \<and>
   current_page (after (delete_recommendation i s)) = current_page s \<and>
   chat_history (after (delete_recommendation i s)) = chat_history s \<and>
   calls (delete_recommendation i s) = []"
  by (auto simp: delete_recommendation_def failed_def finished_def split: sum.splits)

lemma page_keeps_cache:
  assumes "weather_data s = Some w"
  shows "welcome_page a s = Some r \<Longrightarrow> weather_data (after r) = Some w \<and> completions_only (calls r)"
    and "profile_setup_page e a s = Some r \<Longrightarrow> weather_data (after r) = Some w \<and> completions_only (calls r)"
    and "dashboard_page e a s = Some r \<Longrightarrow> weather_data (after r) = Some w \<and> completions_only (calls r)"
    and "crop_planner_page e a s = Some r \<Longrightarrow> weather_data (after r) = Some w \<and> completions_only (calls r)"
    and "soil_optimizer_page e a s = Some r \<Longrightarrow> weather_data (after r) = Some w \<and> completions_only (calls r)"
    and "pest_identifier_page e a s = Some r \<Longrightarrow> weather_data (after r) = Some w \<and> completions_only (calls r)"
    and "weather_alerts_page a s = Some r \<Longrightarrow> weather_data (after r) = Some w \<and> completions_only (calls r)"
    and "cost_tips_page a s = Some r \<Longrightarrow> weather_data (after r) = Some w \<and> completions_only (calls r)"
    and "chat_page e a s = Some r \<Longrightarrow> weather_data (after r) = Some w \<and> completions_only (calls r)"
    and "history_page a s = Some r \<Longrightarrow> weather_data (after r) = Some w \<and> completions_only (calls r)"
    and "settings_page a s = Some r \<Longrightarrow> weather_data (after r) = Some w \<and> completions_only (calls r)"
proof -
  show "welcome_page a s = Some r \<Longrightarrow> weather_data (after r) = Some w \<and> completions_only (calls r)"
    using assms by (cases a) (auto simp: finished_def completions_only_def)
  show "profile_setup_page e a s = Some r \<Longrightarrow> weather_data (after r) = Some w \<and> completions_only (calls r)"
    using assms by (cases a) (auto simp: finished_def failed_def completions_only_def split: if_splits sum.splits)
  show "dashboard_page e a s = Some r \<Longrightarrow> weather_data (after r) = Some w \<and> completions_only (calls r)"
    using assms dashboard_top_cached [OF assms, of e]
    by (auto simp: dashboard_page_def Let_def completions_only_def split: if_splits option.splits)
  show "crop_planner_page e a s = Some r \<Longrightarrow> weather_data (after r) = Some w \<and> completions_only (calls r)"
    using assms call_openai_calls
    by (cases a) (auto simp: finished_def failed_def completions_only_def advise_effect split: if_splits option.splits)
  show "soil_optimizer_page e a s = Some r \<Longrightarrow> weather_data (after r) = Some w \<and> completions_only (calls r)"
    using assms call_openai_calls
    by (cases a) (auto simp: finished_def failed_def completions_only_def advise_effect split: if_splits option.splits)
  show "pest_identifier_page e a s = Some r \<Longrightarrow> weather_data (after r) = Some w \<and> completions_only (calls r)"
    using assms call_openai_calls
    by (cases a) (auto simp: finished_def failed_def completions_only_def advise_effect split: if_splits option.splits)
  show "weather_alerts_page a s = Some r \<Longrightarrow> weather_data (after r) = Some w \<and> completions_only (calls r)"
    using assms by (cases a) (auto simp: finished_def completions_only_def)
  show "cost_tips_page a s = Some r \<Longrightarrow> weather_data (after r) = Some w \<and> completions_only (calls r)"
    using assms by (cases a) (auto simp: finished_def completions_only_def)
  show "chat_page e a s = Some r \<Longrightarrow> weather_data (after r) = Some w \<and> completions_only (calls r)"
    using assms chat_input_effect
    by (cases a) (auto simp: finished_def completions_only_def split: if_splits)
  show "history_page a s = Some r \<Longrightarrow> weather_data (after r) = Some w \<and> completions_only (calls r)"
    using assms
    by (cases a) (auto simp: finished_def completions_only_def delete_recommendation_effect split: if_splits)
  show "settings_page a s = Some r \<Longrightarrow> weather_data (after r) = Some w \<and> completions_only (calls r)"
    using assms
    by (cases a) (auto simp: finished_def completions_only_def sign_out_def split: option.splits)
qed

lemma main_keeps_cache:
  assumes "weather_data s = Some w" "main e a s = Some r"
  shows "weather_data (after r) = Some w \<and> completions_only (calls r)"
proof (cases "sidebar_page a")
  case (Some pg)
  with assms show ?thesis
    by (auto simp: main_def finished_def completions_only_def split: if_splits)
next
  case None
  with assms(2) show ?thesis
    using page_keeps_cache [OF assms(1)]
    by (cases "current_page s") (simp_all add: main_def)
qed

lemma get_weather_empty:
  "weather_data s = None \<Longrightarrow>
     get_weather e loc s =
       (fst (fetch_weather e loc), snd (fetch_weather e loc),
        (case fst (fetch_weather e loc) of None \<Rightarrow> s | Some w \<Rightarrow> s\<lparr>weather_data := Some w\<rparr>))"
  by (cases "fetch_weather e loc") (auto simp: get_weather_def split: option.splits)

lemma dashboard_weather_stores:
  assumes "profile s = Some p" "location p \<noteq> []" "weather_data s = None"
    "fetch_weather e (location p) = (Some w, cs)"
  shows "dashboard_weather e s = (Some w, cs, s\<lparr>weather_data := Some w\<rparr>)"
  using assms by (simp add: dashboard_weather_def get_weather_def)

lemma dashboard_weather_null:
  assumes "profile s = Some p" "location p \<noteq> []" "weather_data s = None"
    "fetch_weather e (location p) = (None, cs)"
  shows "dashboard_weather e s = (None, cs, s)"
  using assms by (simp add: dashboard_weather_def get_weather_def)

lemma dashboard_top_stores:
  assumes "profile s = Some p" "location p \<noteq> []" "weather_data s = None"
    "fetch_weather e (location p) = (Some w, cs)" "split (full_name p) \<noteq> []"
  shows "calls (dashboard_top e s) = cs \<and> after (dashboard_top e s) = s\<lparr>weather_data := Some w\<rparr>"
proof -
  from assms(5) obtain tok toks where "split (full_name p) = tok # toks"
    by (cases "split (full_name p)") auto
  then have f: "first (split (full_name p)) = Inr tok" by (simp add: first_def)
  show ?thesis
    using assms(1) f dashboard_weather_stores [OF assms(1-4)]
    by (simp add: dashboard_top_def split: json.splits)
qed

text \<open>
  Claim C6.  The dashboard asks for the weather through the session's cache.  With the
  cache empty it calls \<open>fetch_weather\<close> for the profile's location; a snapshot that comes
  back is stored in the session, and \<open>None\<close> is not stored, so that the next run asks
  again.  With a snapshot in the cache, the dashboard and \<open>get_weather\<close> return that
  snapshot, send nothing and leave the session as it is; in particular the run after the
  one that fetched it sends nothing.  No user action removes the snapshot, and no run
  started with it sends a geocoding or weather request.
\<close>

theorem weather_memoized:
  "(\<forall>w. weather_data s = Some w \<longrightarrow>
      get_weather e loc s = (Some w, [], s) \<and>
      (\<forall>p. profile s = Some p \<and> location p \<noteq> [] \<longrightarrow> dashboard_weather e s = (Some w, [], s)) \<and>
      calls (dashboard_top e s) = [] \<and> after (dashboard_top e s) = s \<and>
      (\<forall>a r. main e a s = Some r \<longrightarrow>
         weather_data (after r) = Some w \<and> completions_only (calls r))) \<and>
   (\<forall>w cs s'. get_weather e loc s = (Some w, cs, s') \<longrightarrow>
      weather_data s' = Some w \<and> (\<forall>e' loc'. get_weather e' loc' s' = (Some w, [], s'))) \<and>
   (\<forall>cs s'. get_weather e loc s = (None, cs, s') \<longrightarrow> weather_data s' = None \<and> s' = s) \<and>
   (weather_data s = None \<longrightarrow>
      get_weather e loc s =
        (fst (fetch_weather e loc), snd (fetch_weather e loc),
         (case fst (fetch_weather e loc) of None \<Rightarrow> s | Some w \<Rightarrow> s\<lparr>weather_data := Some w\<rparr>))) \<and>
   (\<forall>p w cs. profile s = Some p \<and> location p \<noteq> [] \<and> weather_data s = None \<and>
        fetch_weather e (location p) = (Some w, cs) \<longrightarrow>
      dashboard_weather e s = (Some w, cs, s\<lparr>weather_data := Some w\<rparr>) \<and>
      (\<forall>e'. dashboard_weather e' (s\<lparr>weather_data := Some w\<rparr>) =
              (Some w, [], s\<lparr>weather_data := Some w\<rparr>)) \<and>
      (split (full_name p) \<noteq> [] \<longrightarrow>
         calls (dashboard_top e s) = cs \<and>
         after (dashboard_top e s) = s\<lparr>weather_data := Some w\<rparr> \<and>
         (\<forall>e'. calls (dashboard_top e' (after (dashboard_top e s))) = [] \<and>
               after (dashboard_top e' (after (dashboard_top e s))) = after (dashboard_top e s)))) \<and>
   (\<forall>p cs. profile s = Some p \<and> location p \<noteq> [] \<and> weather_data s = None \<and>
        fetch_weather e (location p) = (None, cs) \<longrightarrow>
      dashboard_weather e s = (None, cs, s)) \<and>
   (current_page s = Dashboard \<longrightarrow> main e Rerun s = Some (dashboard_top e s))"
proof (intro conjI)
  show "\<forall>w. weather_data s = Some w \<longrightarrow>
      get_weather e loc s = (Some w, [], s) \<and>
      (\<forall>p. profile s = Some p \<and> location p \<noteq> [] \<longrightarrow> dashboard_weather e s = (Some w, [], s)) \<and>
      calls (dashboard_top e s) = [] \<and> after (dashboard_top e s) = s \<and>
      (\<forall>a r. main e a s = Some r \<longrightarrow>
         weather_data (after r) = Some w \<and> completions_only (calls r))"
  proof (intro allI impI conjI)
    fix w assume w: "weather_data s = Some w"
    show "get_weather e loc s = (Some w, [], s)" by (rule get_weather_cached [OF w])
    show "calls (dashboard_top e s) = []" "after (dashboard_top e s) = s"
      using dashboard_top_cached [OF w] by simp_all
    { fix p assume "profile s = Some p \<and> location p \<noteq> []"
      then show "dashboard_weather e s = (Some w, [], s)"
        by (simp add: dashboard_weather_def get_weather_cached [OF w]) }
    { fix a r assume "main e a s = Some r"
      from main_keeps_cache [OF w this]
      show "weather_data (after r) = Some w" "completions_only (calls r)" by simp_all }
  qed
  show "\<forall>w cs s'. get_weather e loc s = (Some w, cs, s') \<longrightarrow>
      weather_data s' = Some w \<and> (\<forall>e' loc'. get_weather e' loc' s' = (Some w, [], s'))"
  proof (intro allI impI conjI)
    fix w cs s' assume g: "get_weather e loc s = (Some w, cs, s')"
    from get_weather_result [OF g] show w': "weather_data s' = Some w" by simp
    fix e' loc' show "get_weather e' loc' s' = (Some w, [], s')"
      by (rule get_weather_cached [OF w'])
  qed
  show "\<forall>cs s'. get_weather e loc s = (None, cs, s') \<longrightarrow> weather_data s' = None \<and> s' = s"
    by (auto simp: get_weather_def split: option.splits prod.splits)
  show "weather_data s = None \<longrightarrow>
      get_weather e loc s =
        (fst (fetch_weather e loc), snd (fetch_weather e loc),
         (case fst (fetch_weather e loc) of None \<Rightarrow> s | Some w \<Rightarrow> s\<lparr>weather_data := Some w\<rparr>))"
    by (simp add: get_weather_empty)
  show "\<forall>p w cs. profile s = Some p \<and> location p \<noteq> [] \<and> weather_data s = None \<and>
        fetch_weather e (location p) = (Some w, cs) \<longrightarrow>
      dashboard_weather e s = (Some w, cs, s\<lparr>weather_data := Some w\<rparr>) \<and>
      (\<forall>e'. dashboard_weather e' (s\<lparr>weather_data := Some w\<rparr>) =
              (Some w, [], s\<lparr>weather_data := Some w\<rparr>)) \<and>
      (split (full_name p) \<noteq> [] \<longrightarrow>
         calls (dashboard_top e s) = cs \<and>
         after (dashboard_top e s) = s\<lparr>weather_data := Some w\<rparr> \<and>
         (\<forall>e'. calls (dashboard_top e' (after (dashboard_top e s))) = [] \<and>
               after (dashboard_top e' (after (dashboard_top e s))) = after (dashboard_top e s)))"
  proof (intro allI impI)
    fix p w cs
    assume h: "profile s = Some p \<and> location p \<noteq> [] \<and> weather_data s = None \<and>
        fetch_weather e (location p) = (Some w, cs)"
    let ?s' = "s\<lparr>weather_data := Some w\<rparr>"
    from h have 1: "dashboard_weather e s = (Some w, cs, ?s')"
      by (simp add: dashboard_weather_stores)
    have w': "weather_data ?s' = Some w" by simp
    have 2: "\<forall>e'. dashboard_weather e' ?s' = (Some w, [], ?s')"
      using h by (simp add: dashboard_weather_def get_weather_cached [OF w'])
    have 3: "split (full_name p) \<noteq> [] \<longrightarrow>
         calls (dashboard_top e s) = cs \<and> after (dashboard_top e s) = ?s' \<and>
         (\<forall>e'. calls (dashboard_top e' (after (dashboard_top e s))) = [] \<and>
               after (dashboard_top e' (after (dashboard_top e s))) = after (dashboard_top e s))"
    proof
      assume n: "split (full_name p) \<noteq> []"
      from h n have t: "calls (dashboard_top e s) = cs \<and> after (dashboard_top e s) = ?s'"
        by (simp add: dashboard_top_stores)
      with dashboard_top_cached [OF w']
      show "calls (dashboard_top e s) = cs \<and> after (dashboard_top e s) = ?s' \<and>
         (\<forall>e'. calls (dashboard_top e' (after (dashboard_top e s))) = [] \<and>
               after (dashboard_top e' (after (dashboard_top e s))) = after (dashboard_top e s))"
        by simp
    qed
    from 1 2 3 show "dashboard_weather e s = (Some w, cs, ?s') \<and>
      (\<forall>e'. dashboard_weather e' ?s' = (Some w, [], ?s')) \<and>
      (split (full_name p) \<noteq> [] \<longrightarrow>
         calls (dashboard_top e s) = cs \<and> after (dashboard_top e s) = ?s' \<and>
         (\<forall>e'. calls (dashboard_top e' (after (dashboard_top e s))) = [] \<and>
               after (dashboard_top e' (after (dashboard_top e s))) = after (dashboard_top e s)))"
      by blast
  qed
  show "\<forall>p cs. profile s = Some p \<and> location p \<noteq> [] \<and> weather_data s = None \<and>
        fetch_weather e (location p) = (None, cs) \<longrightarrow>
      dashboard_weather e s = (None, cs, s)"
    by (simp add: dashboard_weather_null)
  show "current_page s = Dashboard \<longrightarrow> main e Rerun s = Some (dashboard_top e s)"
    by (simp add: main_def dashboard_page_def)
qed

theorem weather_memoized_witness:
  "weather_data sample_session = Some sample_weather \<and>
   get_weather offline_env ''Austin'' sample_session = (Some sample_weather, [], sample_session) \<and>
   profile fresh_session = Some sample_profile \<and> location sample_profile \<noteq> [] \<and>
   weather_data fresh_session = None \<and> split (full_name sample_profile) \<noteq> [] \<and>
   current_page fresh_session = Dashboard \<and>
   fetch_weather sample_env (location sample_profile) =
     (Some sample_weather,
      [Geocode ''Austin'', Weather_Call (JFloat (3027 / 100)) (JFloat (- 9774 / 100))]) \<and>
   dashboard_weather sample_env fresh_session =
     (Some sample_weather,
      [Geocode ''Austin'', Weather_Call (JFloat (3027 / 100)) (JFloat (- 9774 / 100))],
      fresh_session\<lparr>weather_data := Some sample_weather\<rparr>) \<and>
   dashboard_weather offline_env (fresh_session\<lparr>weather_data := Some sample_weather\<rparr>) =
     (Some sample_weather, [], fresh_session\<lparr>weather_data := Some sample_weather\<rparr>) \<and>
   main sample_env Rerun fresh_session = Some (dashboard_top sample_env fresh_session) \<and>
   calls (dashboard_top sample_env fresh_session) =
     [Geocode ''Austin'', Weather_Call (JFloat (3027 / 100)) (JFloat (- 9774 / 100))] \<and>
   after (dashboard_top sample_env fresh_session) =
     fresh_session\<lparr>weather_data := Some sample_weather\<rparr> \<and>
   calls (dashboard_top offline_env (after (dashboard_top sample_env fresh_session))) = []"
proof -
  have a: "weather_data sample_session = Some sample_weather" by (simp add: sample_session_def)
  have p: "profile fresh_session = Some sample_profile"
    by (simp add: fresh_session_def sample_session_def)
  have l: "location sample_profile \<noteq> []" by (simp add: sample_profile_def)
  have n: "weather_data fresh_session = None" by (simp add: fresh_session_def)
  have d: "current_page fresh_session = Dashboard" by (simp add: fresh_session_def)
  have "split ''Asha Rao'' = [''Asha'', ''Rao'']" by code_simp
  then have sp: "split (full_name sample_profile) \<noteq> []" by (simp add: sample_profile_def)
  have r: "round_half_even (43 / 2) = 22" by code_simp
  have f: "fetch_weather sample_env (location sample_profile) =
     (Some sample_weather, [Geocode ''Austin'', Weather_Call (JFloat (3027 / 100)) (JFloat (- 9774 / 100))])"
    by (simp add: fetch_weather_def fetch_weather_try_def coordinates_def snapshot_def
        and_then_def sample_env_def sample_geo_def sample_conditions_def sample_weather_def
        sample_profile_def first_def r)
  from weather_memoized [of sample_session offline_env "''Austin''"] a
  have c: "get_weather offline_env ''Austin'' sample_session = (Some sample_weather, [], sample_session)"
    by blast
  note t = weather_memoized [of fresh_session sample_env "''Austin''"]
  from t p l n f
  have 1: "dashboard_weather sample_env fresh_session =
     (Some sample_weather,
      [Geocode ''Austin'', Weather_Call (JFloat (3027 / 100)) (JFloat (- 9774 / 100))],
      fresh_session\<lparr>weather_data := Some sample_weather\<rparr>)"
    by blast
  from t p l n f
  have 2: "dashboard_weather offline_env (fresh_session\<lparr>weather_data := Some sample_weather\<rparr>) =
     (Some sample_weather, [], fresh_session\<lparr>weather_data := Some sample_weather\<rparr>)"
    by blast
  from t d have 3: "main sample_env Rerun fresh_session = Some (dashboard_top sample_env fresh_session)"
    by blast
  from t p l n f sp
  have 4: "calls (dashboard_top sample_env fresh_session) =
     [Geocode ''Austin'', Weather_Call (JFloat (3027 / 100)) (JFloat (- 9774 / 100))]"
    and 5: "after (dashboard_top sample_env fresh_session) =
     fresh_session\<lparr>weather_data := Some sample_weather\<rparr>"
    and 6: "calls (dashboard_top offline_env (after (dashboard_top sample_env fresh_session))) = []"
    by blast+
  from a c p l n sp d f 1 2 3 4 5 6 show ?thesis by blast
qed

text \<open>
  Claim C10.  From the settings page of a session with a cached snapshot: sign out,
  press \<open>Get Started\<close> and create a new profile, with any name and location that are
  not empty.  The snapshot is still cached, the dashboard shows it for the new profile,
  and none of these runs sends an external request.
\<close>

theorem cache_survives_sign_out:
  assumes "weather_data s = Some w" and "current_page s = Settings"
    and "name \<noteq> []" and "loc \<noteq> []"
    and "size_label \<in> set farm_size_options" and "experience \<in> set experience_options"
  shows "\<exists>r1 r2 r3 p.
     main e1 Sign_Out s = Some r1 \<and>
     main e2 Get_Started (after r1) = Some r2 \<and>
     main e3 (Create_Profile name loc size_label crops experience) (after r2) = Some r3 \<and>
     profile (after r1) = None \<and> weather_data (after r1) = Some w \<and>
     profile (after r3) = Some p \<and> location p = loc \<and> current_page (after r3) = Dashboard \<and>
     weather_data (after r3) = Some w \<and>
     dashboard_weather e4 (after r3) = (Some w, [], after r3) \<and>
     calls r1 = [] \<and> calls r2 = [] \<and> calls r3 = [] \<and>
     calls (dashboard_top e4 (after r3)) = []"
proof -
  let ?s1 = "sign_out s"
  let ?s2 = "?s1\<lparr>current_page := Profile_Setup\<rparr>"
  obtain fs el where p: "create_profile (now e3) name loc size_label crops experience =
          Inr \<lparr>full_name = name, location = loc, farm_size = fs,
                         primary_crops = crops, experience_level = el, created_at = now e3\<rparr>"
    using create_profile_Inr [OF assms(5,6,3,4)] by blast
  let ?p = "\<lparr>full_name = name, location = loc, farm_size = fs,
                         primary_crops = crops, experience_level = el, created_at = now e3\<rparr>"
  let ?s3 = "?s2\<lparr>profile := Some ?p, current_page := Dashboard\<rparr>"
  have 1: "main e1 Sign_Out s = Some (finished ?s1)"
    using assms(2) by (simp add: main_def)
  have 2: "main e2 Get_Started ?s1 = Some (finished ?s2)"
    by (simp add: main_def sign_out_def)
  have 3: "main e3 (Create_Profile name loc size_label crops experience) ?s2 = Some (finished ?s3)"
    using assms(5,6) p by (simp add: main_def sign_out_def)
  have w3: "weather_data ?s3 = Some w" using assms(1) by (simp add: sign_out_def)
  have 4: "dashboard_weather e4 ?s3 = (Some w, [], ?s3)"
    using assms(4) get_weather_cached [OF w3] by (simp add: dashboard_weather_def)
  have 5: "calls (dashboard_top e4 ?s3) = []"
    using dashboard_top_cached [OF w3] by simp
  have "main e1 Sign_Out s = Some (finished ?s1) \<and>
     main e2 Get_Started (after (finished ?s1)) = Some (finished ?s2) \<and>
     main e3 (Create_Profile name loc size_label crops experience) (after (finished ?s2)) = Some (finished ?s3) \<and>
     profile (after (finished ?s1)) = None \<and> weather_data (after (finished ?s1)) = Some w \<and>
     profile (after (finished ?s3)) = Some ?p \<and> location ?p = loc \<and> current_page (after (finished ?s3)) = Dashboard \<and>
     weather_data (after (finished ?s3)) = Some w \<and>
     dashboard_weather e4 (after (finished ?s3)) = (Some w, [], after (finished ?s3)) \<and>
     calls (finished ?s1) = [] \<and> calls (finished ?s2) = [] \<and> calls (finished ?s3) = [] \<and>
     calls (dashboard_top e4 (after (finished ?s3))) = []"
    using 1 2 3 4 5 assms(1) by (simp add: finished_def sign_out_def)
  then show ?thesis by blast
qed

theorem cache_survives_sign_out_witness:
  "weather_data sample_session = Some sample_weather \<and>
   current_page sample_session = Settings \<and>
   ''Medium (5-50 acres)'' \<in> set farm_size_options \<and>
   ''Intermediate (3-10 years)'' \<in> set experience_options \<and>
   (\<exists>r1 r2 r3 p.
     main offline_env Sign_Out sample_session = Some r1 \<and>
     main offline_env Get_Started (after r1) = Some r2 \<and>
     main offline_env
       (Create_Profile ''Ravi'' ''Pune'' ''Medium (5-50 acres)'' ''Rice'' ''Intermediate (3-10 years)'')
       (after r2) = Some r3 \<and>
     profile (after r1) = None \<and> weather_data (after r1) = Some sample_weather \<and>
     profile (after r3) = Some p \<and> location p = ''Pune'' \<and>
     current_page (after r3) = Dashboard \<and>
     weather_data (after r3) = Some sample_weather \<and>
     dashboard_weather sample_env (after r3) = (Some sample_weather, [], after r3) \<and>
     calls r1 = [] \<and> calls r2 = [] \<and> calls r3 = [] \<and>
     calls (dashboard_top sample_env (after r3)) = [])"
proof -
  have a: "weather_data sample_session = Some sample_weather" by (simp add: sample_session_def)
  have b: "current_page sample_session = Settings" by (simp add: sample_session_def)
  have c: "''Ravi'' \<noteq> []" "''Pune'' \<noteq> []" by simp_all
  have d: "''Medium (5-50 acres)'' \<in> set farm_size_options" by (simp add: farm_size_options_def)
  have e: "''Intermediate (3-10 years)'' \<in> set experience_options"
    by (simp add: experience_options_def)
  from cache_survives_sign_out [OF a b c d e, of offline_env offline_env offline_env "''Rice''" sample_env] a b d e
  show ?thesis by blast
qed

subsection \<open>Deleting a recommendation\<close>





subsection \<open>The chat transcript\<close>

lemma paired_append_user:
  "paired h \<Longrightarrow> role u = User \<Longrightarrow> paired (h @ [u])"
  by (induction h rule: paired.induct) auto

lemma paired_append_pair:
  "paired h \<Longrightarrow> role u = User \<Longrightarrow> role a = Assistant \<Longrightarrow> content a \<noteq> [] \<Longrightarrow> paired (h @ [u, a])"
  by (induction h rule: paired.induct) auto

lemma chat_input_history:
  "chat_history (after (chat_input e u s)) =
     chat_history s @ [\<lparr>role = User, content = u\<rparr>] \<or>
   (\<exists>r. r \<noteq> [] \<and> chat_history (after (chat_input e u s)) =
     chat_history s @ [\<lparr>role = User, content = u\<rparr>, \<lparr>role = Assistant, content = r\<rparr>])"
proof (cases "profile s")
  case None
  then show ?thesis by (simp add: chat_input_def failed_def)
next
  case (Some p)
  then show ?thesis
    by (cases "call_openai e (full_prompt p u)")
       (auto simp: chat_input_def Let_def split: sum.splits option.splits)
qed

lemma chat_input_paired:
  "paired (chat_history s) \<Longrightarrow> paired (chat_history (after (chat_input e u s)))"
  using chat_input_history [of e u s]
  by (auto simp: paired_append_user paired_append_pair)

lemma page_keeps_paired:
  assumes "paired (chat_history s)"
  shows "welcome_page a s = Some r \<Longrightarrow> paired (chat_history (after r))"
    and "profile_setup_page e a s = Some r \<Longrightarrow> paired (chat_history (after r))"
    and "dashboard_page e a s = Some r \<Longrightarrow> paired (chat_history (after r))"
    and "crop_planner_page e a s = Some r \<Longrightarrow> paired (chat_history (after r))"
    and "soil_optimizer_page e a s = Some r \<Longrightarrow> paired (chat_history (after r))"
    and "pest_identifier_page e a s = Some r \<Longrightarrow> paired (chat_history (after r))"
    and "weather_alerts_page a s = Some r \<Longrightarrow> paired (chat_history (after r))"
    and "cost_tips_page a s = Some r \<Longrightarrow> paired (chat_history (after r))"
    and "chat_page e a s = Some r \<Longrightarrow> paired (chat_history (after r))"
    and "history_page a s = Some r \<Longrightarrow> paired (chat_history (after r))"
    and "settings_page a s = Some r \<Longrightarrow> paired (chat_history (after r))"
proof -
  show "welcome_page a s = Some r \<Longrightarrow> paired (chat_history (after r))"
    using assms by (cases a) (auto simp: finished_def)
  show "profile_setup_page e a s = Some r \<Longrightarrow> paired (chat_history (after r))"
    using assms by (cases a) (auto simp: finished_def failed_def split: if_splits sum.splits)
  show "dashboard_page e a s = Some r \<Longrightarrow> paired (chat_history (after r))"
    using assms
    by (cases "dashboard_weather e s")
       (auto simp: dashboard_page_def dashboard_top_def dashboard_weather_def get_weather_def
          failed_def Let_def
          split: if_splits option.splits sum.splits json.splits prod.splits)
  show "crop_planner_page e a s = Some r \<Longrightarrow> paired (chat_history (after r))"
    using assms
    by (cases a) (auto simp: finished_def failed_def advise_effect split: if_splits option.splits)
  show "soil_optimizer_page e a s = Some r \<Longrightarrow> paired (chat_history (after r))"
    using assms
    by (cases a) (auto simp: finished_def failed_def advise_effect split: if_splits option.splits)
  show "pest_identifier_page e a s = Some r \<Longrightarrow> paired (chat_history (after r))"
    using assms
    by (cases a) (auto simp: finished_def failed_def advise_effect split: if_splits option.splits)
  show "weather_alerts_page a s = Some r \<Longrightarrow> paired (chat_history (after r))"
    using assms by (cases a) (auto simp: finished_def)
  show "cost_tips_page a s = Some r \<Longrightarrow> paired (chat_history (after r))"
    using assms by (cases a) (auto simp: finished_def)
  show "chat_page e a s = Some r \<Longrightarrow> paired (chat_history (after r))"
    using assms chat_input_paired
    by (cases a) (auto simp: finished_def split: if_splits)
  show "history_page a s = Some r \<Longrightarrow> paired (chat_history (after r))"
    using assms
    by (cases a) (auto simp: finished_def delete_recommendation_effect split: if_splits)
  show "settings_page a s = Some r \<Longrightarrow> paired (chat_history (after r))"
    using assms
    by (cases a) (auto simp: finished_def sign_out_def split: option.splits)
qed

lemma main_keeps_paired:
  assumes "paired (chat_history s)" "main e a s = Some r"
  shows "paired (chat_history (after r))"
proof (cases "sidebar_page a")
  case (Some pg)
  with assms show ?thesis
    by (auto simp: main_def finished_def split: if_splits)
next
  case None
  with assms(2) show ?thesis
    using page_keeps_paired [OF assms(1)]
    by (cases "current_page s") (simp_all add: main_def)
qed

lemma reachable_paired: "reachable s \<Longrightarrow> paired (chat_history s)"
proof (induction rule: reachable.induct)
  case start
  show ?case by (simp add: initial_def)
next
  case (step s e a r)
  then show ?case by (simp add: main_keeps_paired)
qed

lemma paired_nth:
  "paired h \<Longrightarrow> i < length h \<Longrightarrow>
     role (h ! i) \<noteq> System \<and>
     (role (h ! i) = Assistant \<longrightarrow>
        0 < i \<and> role (h ! (i - 1)) = User \<and> content (h ! i) \<noteq> [])"
proof (induction h arbitrary: i rule: paired.induct)
  case 1
  then show ?case by simp
next
  case (2 m)
  then show ?case by simp
next
  case (3 m m' ms)
  from "3.prems"(1) have m: "role m = User" by simp
  show ?case
  proof (cases i)
    case 0
    with m show ?thesis by simp
  next
    case (Suc j)
    note i = Suc
    show ?thesis
    proof (cases "role m' = Assistant")
      case True
      with "3.prems"(1) have pm: "content m' \<noteq> []" "paired ms" by simp_all
      show ?thesis
      proof (cases j)
        case 0
        with i True pm m show ?thesis by simp
      next
        case (Suc k)
        with i "3.prems"(2) have k: "k < length ms" by simp
        note ih = "3.IH"(1) [OF True pm(2) k]
        show ?thesis
        proof (cases k)
          case 0
          with ih i Suc show ?thesis by simp
        next
          case (Suc l)
          with ih i \<open>j = Suc k\<close> show ?thesis by simp
        qed
      qed
    next
      case False
      with "3.prems"(1) have pm: "paired (m' # ms)" by simp
      from i "3.prems"(2) have j: "j < length (m' # ms)" by simp
      note ih = "3.IH"(2) [OF False pm j]
      show ?thesis
      proof (cases j)
        case 0
        with ih i False show ?thesis by simp
      next
        case (Suc k)
        with ih i show ?thesis by simp
      qed
    qed
  qed
qed

lemma call_openai_sample:
  "call_openai sample_env prompt = (Inr (Some ''Plant okra.''), [Completion (build_request prompt)])"
  by (simp add: call_openai_def sample_env_def)

lemma call_openai_empty_reply:
  "call_openai empty_reply_env prompt = (Inr (Some []), [Completion (build_request prompt)])"
  by (simp add: call_openai_def empty_reply_env_def sample_env_def)

lemma reachable_chat_session: "reachable chat_session"
proof -
  let ?s1 = "initial\<lparr>current_page := Profile_Setup\<rparr>"
  let ?s2 = "?s1\<lparr>profile := Some sample_profile, current_page := Dashboard\<rparr>"
  let ?s3 = "?s2\<lparr>current_page := Chat\<rparr>"
  have c: "create_profile ''2024-06-01T09:00:00'' ''Asha Rao'' ''Austin'' ''Small (< 5 acres)''
      ''Corn'' ''Beginner (0-2 years)'' = Inr sample_profile"
    unfolding sample_profile_def by code_simp
  have 1: "main sample_env Get_Started initial = Some (finished ?s1)"
    by (simp add: main_def initial_def)
  have 2: "main sample_env
      (Create_Profile ''Asha Rao'' ''Austin'' ''Small (< 5 acres)'' ''Corn'' ''Beginner (0-2 years)'')
      ?s1 = Some (finished ?s2)"
    using c by (simp add: main_def initial_def farm_size_options_def experience_options_def sample_env_def)
  have 3: "main sample_env Sidebar_Chat ?s2 = Some (finished ?s3)"
    by (simp add: main_def)
  have 4: "main sample_env (Chat_Input ''Hello'') ?s3 = Some (chat_input sample_env ''Hello'' ?s3)"
    by (simp add: main_def)
  have 5: "after (chat_input sample_env ''Hello'' ?s3) = chat_session"
    by (simp add: chat_input_def call_openai_sample chat_session_def initial_def)
  have "reachable ?s1" using reachable.step [OF reachable.start 1] by (simp add: finished_def)
  then have "reachable ?s2" using reachable.step [OF _ 2] by (simp add: finished_def)
  then have "reachable ?s3" using reachable.step [OF _ 3] by (simp add: finished_def)
  from reachable.step [OF this 4] show ?thesis unfolding 5 .
qed

text \<open>
  Claim C4, as the code has it.  A chat input appends the user's message.  When
  \<open>call_openai\<close> returns a text that is not empty, one assistant message holding that
  text is appended after it and the run ends normally.  When \<open>call_openai\<close> stops the
  script, or returns no text or the empty text, nothing more is appended and a failure is
  shown.  Hence in every reachable session the transcript is made of such blocks: every
  message is a user's or an assistant's, and every assistant message has some text and
  stands right after a user message.
\<close>

theorem chat_transcript_blocks:
  "(\<forall>p r. profile s = Some p \<and> fst (call_openai e (full_prompt p u)) = Inr (Some r) \<and> r \<noteq> [] \<longrightarrow>
      outcome (chat_input e u s) = None \<and>
      chat_history (after (chat_input e u s)) =
        chat_history s @ [\<lparr>role = User, content = u\<rparr>, \<lparr>role = Assistant, content = r\<rparr>]) \<and>
   (\<forall>p. profile s = Some p \<and>
        (fst (call_openai e (full_prompt p u)) = Inr None \<or>
         fst (call_openai e (full_prompt p u)) = Inr (Some []) \<or>
         (\<exists>f. fst (call_openai e (full_prompt p u)) = Inl f)) \<longrightarrow>
      outcome (chat_input e u s) \<noteq> None \<and>
      chat_history (after (chat_input e u s)) = chat_history s @ [\<lparr>role = User, content = u\<rparr>]) \<and>
   (u \<noteq> [] \<and> current_page s = Chat \<longrightarrow> main e (Chat_Input u) s = Some (chat_input e u s)) \<and>
   (reachable s \<longrightarrow>
      paired (chat_history s) \<and>
      (\<forall>i < length (chat_history s).
         role (chat_history s ! i) \<noteq> System \<and>
         (role (chat_history s ! i) = Assistant \<longrightarrow>
            0 < i \<and> role (chat_history s ! (i - 1)) = User \<and>
            content (chat_history s ! i) \<noteq> [])))"
proof (intro conjI allI impI)
  fix p r
  assume "profile s = Some p \<and> fst (call_openai e (full_prompt p u)) = Inr (Some r) \<and> r \<noteq> []"
  then show "outcome (chat_input e u s) = None"
    and "chat_history (after (chat_input e u s)) =
        chat_history s @ [\<lparr>role = User, content = u\<rparr>, \<lparr>role = Assistant, content = r\<rparr>]"
    by (cases "call_openai e (full_prompt p u)"; simp add: chat_input_def)+
next
  fix p
  assume a: "profile s = Some p \<and>
        (fst (call_openai e (full_prompt p u)) = Inr None \<or>
         fst (call_openai e (full_prompt p u)) = Inr (Some []) \<or>
         (\<exists>f. fst (call_openai e (full_prompt p u)) = Inl f))"
  then show "outcome (chat_input e u s) \<noteq> None"
    by (cases "call_openai e (full_prompt p u)") (auto simp: chat_input_def)
  from a show "chat_history (after (chat_input e u s)) = chat_history s @ [\<lparr>role = User, content = u\<rparr>]"
    by (cases "call_openai e (full_prompt p u)") (auto simp: chat_input_def)
next
  assume "u \<noteq> [] \<and> current_page s = Chat"
  then show "main e (Chat_Input u) s = Some (chat_input e u s)" by (simp add: main_def)
next
  assume r: "reachable s"
  then show "paired (chat_history s)" by (rule reachable_paired)
  fix i assume "i < length (chat_history s)"
  with paired_nth [OF reachable_paired [OF r]]
  show "role (chat_history s ! i) \<noteq> System"
    and "role (chat_history s ! i) = Assistant \<Longrightarrow> 0 < i"
    and "role (chat_history s ! i) = Assistant \<Longrightarrow> role (chat_history s ! (i - 1)) = User"
    and "role (chat_history s ! i) = Assistant \<Longrightarrow> content (chat_history s ! i) \<noteq> []"
    by blast+
qed

theorem chat_transcript_blocks_witness:
  "profile fresh_session = Some sample_profile \<and>
   fst (call_openai sample_env (full_prompt sample_profile ''Hello'')) = Inr (Some ''Plant okra.'') \<and>
   chat_history (after (chat_input sample_env ''Hello'' fresh_session)) =
     chat_history fresh_session @
       [\<lparr>role = User, content = ''Hello''\<rparr>, \<lparr>role = Assistant, content = ''Plant okra.''\<rparr>] \<and>
   reachable chat_session \<and> paired (chat_history chat_session) \<and>
   role (chat_history chat_session ! (1 - 1)) = User"
proof -
  have a: "profile fresh_session = Some sample_profile"
    by (simp add: fresh_session_def sample_session_def)
  have b: "fst (call_openai sample_env (full_prompt sample_profile ''Hello'')) = Inr (Some ''Plant okra.'')"
    by (simp add: call_openai_sample)
  have c: "''Plant okra.'' \<noteq> []" by simp
  from chat_transcript_blocks [of fresh_session sample_env "''Hello''"] a b c
  have d: "chat_history (after (chat_input sample_env ''Hello'' fresh_session)) =
     chat_history fresh_session @
       [\<lparr>role = User, content = ''Hello''\<rparr>, \<lparr>role = Assistant, content = ''Plant okra.''\<rparr>]"
    by blast
  have l: "1 < length (chat_history chat_session)" "role (chat_history chat_session ! 1) = Assistant"
    by (simp_all add: chat_session_def)
  from chat_transcript_blocks [of chat_session sample_env "''Hello''"] reachable_chat_session l
  have e: "paired (chat_history chat_session)" "role (chat_history chat_session ! (1 - 1)) = User"
    by blast+
  from a b d e reachable_chat_session show ?thesis
    by (simp add: call_openai_sample)
qed

text \<open>
  Claim C4 as stated fails: the completion request succeeds with the empty text, and the
  user's message is followed by no assistant message.
\<close>

theorem empty_reply_leaves_user_unanswered:
  "profile fresh_session = Some sample_profile \<and>
   fst (call_openai empty_reply_env (full_prompt sample_profile ''Hello'')) = Inr (Some []) \<and>
   chat_history fresh_session = [] \<and>
   chat_history (after (chat_input empty_reply_env ''Hello'' fresh_session)) =
     [\<lparr>role = User, content = ''Hello''\<rparr>]"
  by (simp add: chat_input_def call_openai_empty_reply fresh_session_def sample_session_def)

subsection \<open>Navigation\<close>

lemma call_openai_failure:
  "fst (call_openai e prompt) = Inl f \<Longrightarrow> f = ConfigurationError \<or> (\<exists>msg. f = ServiceError msg)"
  by (auto simp: call_openai_def split: if_splits sum.splits list.splits)

lemma advise_outcome: "outcome (advise e prompt kind heading s) \<noteq> Some (Uncaught err)"
  using call_openai_failure [of e prompt]
  by (cases "call_openai e prompt") (auto simp: advise_def split: sum.splits option.splits)

lemma chat_input_outcome:
  "profile s \<noteq> None \<Longrightarrow> outcome (chat_input e u s) \<noteq> Some (Uncaught err)"
proof -
  assume "profile s \<noteq> None"
  then obtain p where p: "profile s = Some p" by auto
  show ?thesis
    using call_openai_failure [of e "full_prompt p u"] p
    by (cases "call_openai e (full_prompt p u)")
       (auto simp: chat_input_def Let_def split: sum.splits option.splits)
qed

lemma dashboard_top_frame:
  "profile (after (dashboard_top e s)) = profile s \<and>
   current_page (after (dashboard_top e s)) = current_page s"
  by (cases "dashboard_weather e s")
     (auto simp: dashboard_top_def dashboard_weather_def get_weather_def failed_def
        split: if_splits option.splits sum.splits json.splits prod.splits)

lemma dashboard_top_needs_profile:
  "outcome (dashboard_top e s) = None \<Longrightarrow> profile s \<noteq> None"
  by (cases "dashboard_weather e s")
     (auto simp: dashboard_top_def failed_def split: option.splits sum.splits)

lemma page_keeps_gate:
  shows "welcome_page a s = Some r \<Longrightarrow> current_page s = Welcome \<Longrightarrow> gate (after r)"
    and "profile_setup_page e a s = Some r \<Longrightarrow> current_page s = Profile_Setup \<Longrightarrow> gate (after r)"
    and "dashboard_page e a s = Some r \<Longrightarrow> gate s \<Longrightarrow> gate (after r)"
    and "crop_planner_page e a s = Some r \<Longrightarrow> gate s \<Longrightarrow> gate (after r)"
    and "soil_optimizer_page e a s = Some r \<Longrightarrow> gate s \<Longrightarrow> gate (after r)"
    and "pest_identifier_page e a s = Some r \<Longrightarrow> gate s \<Longrightarrow> gate (after r)"
    and "weather_alerts_page a s = Some r \<Longrightarrow> gate s \<Longrightarrow> gate (after r)"
    and "cost_tips_page a s = Some r \<Longrightarrow> gate s \<Longrightarrow> gate (after r)"
    and "chat_page e a s = Some r \<Longrightarrow> gate s \<Longrightarrow> gate (after r)"
    and "history_page a s = Some r \<Longrightarrow> gate s \<Longrightarrow> gate (after r)"
    and "settings_page a s = Some r \<Longrightarrow> gate s \<Longrightarrow> gate (after r)"
proof -
  show "welcome_page a s = Some r \<Longrightarrow> current_page s = Welcome \<Longrightarrow> gate (after r)"
    by (cases a) (auto simp: finished_def gate_def)
  show "profile_setup_page e a s = Some r \<Longrightarrow> current_page s = Profile_Setup \<Longrightarrow> gate (after r)"
    by (cases a) (auto simp: finished_def failed_def gate_def split: if_splits sum.splits)
  show "dashboard_page e a s = Some r \<Longrightarrow> gate s \<Longrightarrow> gate (after r)"
    using dashboard_top_frame [of e s] dashboard_top_needs_profile [of e s]
    by (auto simp: dashboard_page_def Let_def gate_def split: if_splits option.splits)
  show "crop_planner_page e a s = Some r \<Longrightarrow> gate s \<Longrightarrow> gate (after r)"
    by (cases a) (auto simp: finished_def failed_def gate_def advise_effect split: if_splits option.splits)
  show "soil_optimizer_page e a s = Some r \<Longrightarrow> gate s \<Longrightarrow> gate (after r)"
    by (cases a) (auto simp: finished_def failed_def gate_def advise_effect split: if_splits option.splits)
  show "pest_identifier_page e a s = Some r \<Longrightarrow> gate s \<Longrightarrow> gate (after r)"
    by (cases a) (auto simp: finished_def failed_def gate_def advise_effect split: if_splits option.splits)
  show "weather_alerts_page a s = Some r \<Longrightarrow> gate s \<Longrightarrow> gate (after r)"
    by (cases a) (auto simp: finished_def gate_def)
  show "cost_tips_page a s = Some r \<Longrightarrow> gate s \<Longrightarrow> gate (after r)"
    by (cases a) (auto simp: finished_def gate_def)
  show "chat_page e a s = Some r \<Longrightarrow> gate s \<Longrightarrow> gate (after r)"
    using chat_input_effect
    by (cases a) (auto simp: finished_def gate_def split: if_splits)
  show "history_page a s = Some r \<Longrightarrow> gate s \<Longrightarrow> gate (after r)"
    by (cases a) (auto simp: finished_def gate_def delete_recommendation_effect split: if_splits)
  show "settings_page a s = Some r \<Longrightarrow> gate s \<Longrightarrow> gate (after r)"
    by (cases a) (auto simp: finished_def gate_def sign_out_def split: option.splits)
qed

lemma main_keeps_gate:
  assumes "gate s" "main e a s = Some r"
  shows "gate (after r)"
proof (cases "sidebar_page a")
  case (Some pg)
  with assms show ?thesis
    by (auto simp: main_def finished_def gate_def split: if_splits)
next
  case None
  with assms show ?thesis
    using page_keeps_gate
    by (cases "current_page s") (simp_all add: main_def)
qed

lemma reachable_gate: "reachable s \<Longrightarrow> gate s"
proof (induction rule: reachable.induct)
  case start
  show ?case by (simp add: initial_def gate_def)
next
  case (step s e a r)
  then show ?case by (simp add: main_keeps_gate)
qed

lemma advisory_no_attribute_error:
  assumes "profile s \<noteq> None" "main e a s = Some r"
    "current_page s = Crop_Planner \<or> current_page s = Soil_Optimizer \<or>
     current_page s = Pest_Identifier \<or> current_page s = Chat"
  shows "outcome r \<noteq> Some (Uncaught AttributeError)"
proof (cases "sidebar_page a")
  case (Some pg)
  with assms show ?thesis
    by (auto simp: main_def finished_def split: if_splits)
next
  case None
  from assms(1) obtain p where p: "profile s = Some p" by auto
  from assms(3) consider "current_page s = Crop_Planner" | "current_page s = Soil_Optimizer"
    | "current_page s = Pest_Identifier" | "current_page s = Chat" by blast
  then show ?thesis
  proof cases
    case 1
    with None assms(2) p show ?thesis
      by (cases a) (auto simp: main_def finished_def advise_outcome split: if_splits)
  next
    case 2
    with None assms(2) p show ?thesis
      by (cases a) (auto simp: main_def finished_def advise_outcome split: if_splits)
  next
    case 3
    with None assms(2) p show ?thesis
      by (cases a) (auto simp: main_def finished_def failed_def advise_outcome split: if_splits)
  next
    case 4
    with None assms(2) p show ?thesis
      using chat_input_outcome [of s e _ AttributeError]
      by (cases a) (auto simp: main_def finished_def split: if_splits)
  qed
qed

text \<open>
  Claim C9.  In every reachable session without a profile the current page is
  \<open>welcome\<close> or \<open>profile_setup\<close>.  So on the crop planner, the soil optimizer, the
  pest identifier and the chat page there is a profile, and no run of these pages ends
  in the \<open>AttributeError\<close> that reading a field of an absent profile raises.
\<close>

theorem profile_gate_invariant:
  assumes "reachable s"
  shows "(profile s = None \<longrightarrow> current_page s = Welcome \<or> current_page s = Profile_Setup) \<and>
     (\<forall>e a r. (current_page s = Crop_Planner \<or> current_page s = Soil_Optimizer \<or>
                current_page s = Pest_Identifier \<or> current_page s = Chat) \<and>
               main e a s = Some r \<longrightarrow>
          profile s \<noteq> None \<and> outcome r \<noteq> Some (Uncaught AttributeError))"
proof (intro conjI allI impI)
  from reachable_gate [OF assms] have g: "gate s" .
  { assume "profile s = None"
    with g show "current_page s = Welcome \<or> current_page s = Profile_Setup"
      by (simp add: gate_def) }
  fix e a r
  assume h: "(current_page s = Crop_Planner \<or> current_page s = Soil_Optimizer \<or>
                current_page s = Pest_Identifier \<or> current_page s = Chat) \<and>
               main e a s = Some r"
  with g show p: "profile s \<noteq> None" by (auto simp: gate_def)
  from advisory_no_attribute_error [OF p] h
  show "outcome r \<noteq> Some (Uncaught AttributeError)" by blast
qed

theorem profile_gate_invariant_witness:
  "reachable chat_session \<and> current_page chat_session = Chat \<and>
   main empty_reply_env (Chat_Input ''Hello again'') chat_session =
     Some (chat_input empty_reply_env ''Hello again'' chat_session) \<and>
   profile chat_session \<noteq> None \<and>
   outcome (chat_input empty_reply_env ''Hello again'' chat_session) \<noteq> Some (Uncaught AttributeError)"
proof -
  have a: "current_page chat_session = Chat" by (simp add: chat_session_def)
  have b: "main empty_reply_env (Chat_Input ''Hello again'') chat_session =
     Some (chat_input empty_reply_env ''Hello again'' chat_session)"
    by (simp add: main_def chat_session_def)
  from profile_gate_invariant [OF reachable_chat_session] a b
  have "profile chat_session \<noteq> None \<and>
     outcome (chat_input empty_reply_env ''Hello again'' chat_session) \<noteq> Some (Uncaught AttributeError)"
    by blast
  with a b reachable_chat_session show ?thesis by blast
qed

end
